theory Spec2Isabelle
  imports
    Main
    "HOL-Library.Multiset"
    "HOL-Library.Char_ord"
    "HOL-Library.List_Lexorder"
    "HOL-Library.Option_ord"
begin

section \<open>Task manager backend: task routes and the auth middleware\<close>

text \<open>
  The development embeds \<^verbatim>\<open>backend/models/Task.js\<close>, \<^verbatim>\<open>backend/routes/taskRoutes.js\<close>
  and \<^verbatim>\<open>backend/middleware/authMiddleware.js\<close>.

  Conventions of the embedding.
  \<^item> A JavaScript string is a \<open>string\<close>; its characters are the code points below 256, so
    the white space that \<^verbatim>\<open>trim\<close> removes is the tab, line feed, vertical tab, form feed,
    carriage return, space and no-break space.
  \<^item> A \<^verbatim>\<open>Date\<close> is its number of milliseconds since the epoch (\<open>int\<close>); \<^verbatim>\<open>Date.now()\<close> is
    the argument \<open>now\<close> of the operations that read the clock.
  \<^item> A value that may be \<^verbatim>\<open>undefined\<close> is an \<open>option\<close>. The request body and the query
    string are typed: the text fields are absent or strings, \<^verbatim>\<open>dueDate\<close> is absent, a number
    or a string. Reading a non-empty string as a \<^verbatim>\<open>Date\<close> is left to the JavaScript engine and
    is the parameter \<open>parse\<close> (\<open>None\<close>: an invalid date).
  \<^item> An \<^verbatim>\<open>ObjectId\<close> is a \<open>nat\<close>. Mongoose's cast of a string to an \<^verbatim>\<open>ObjectId\<close> is the
    parameter \<open>cast\<close> (\<open>None\<close>: the string is no identifier and the query rejects with a
    \<^verbatim>\<open>CastError\<close>).
  \<^item> A thrown error is a \<open>js_error\<close> value (\<^verbatim>\<open>error.name\<close>, \<^verbatim>\<open>error.message\<close>); an
    operation that may reject returns \<open>js_error + 'a\<close>.
  \<^item> The collections are lists in insertion order. The field \<open>failure\<close> of the database is
    the fault of the persistence layer, if any: while it is set, every operation that reaches
    the database rejects with that error.
  \<^item> \<^verbatim>\<open>console.error\<close> writes to the server's log only and is left out. The route
    \<^verbatim>\<open>GET /tasks/search\<close> rests on MongoDB's text index and is not embedded.
\<close>

subsection \<open>Data model\<close>

type_synonym objectId = nat
type_synonym date = int

record js_error =
  err_name :: string
  err_message :: string

text \<open>The \<^verbatim>\<open>taskSchema\<close> of \<^verbatim>\<open>models/Task.js\<close>; \<open>task_id\<close> is the document's \<^verbatim>\<open>_id\<close>.\<close>

record task =
  task_id :: objectId
  title :: string
  description :: "string option"
  status :: string
  priority :: string
  dueDate :: "date option"
  user :: objectId
  createdAt :: date
  updatedAt :: date

text \<open>
  Modelled from the spec: \<^verbatim>\<open>models/User.js\<close> is not among the sources. A user has an
  identifier, a name and an email; the password hash is not part of the document that
  \<^verbatim>\<open>select('-password')\<close> returns.
\<close>

record user_doc =
  user_id :: objectId
  user_name :: string
  user_email :: string

record db =
  users :: "user_doc list"
  tasks :: "task list"
  failure :: "js_error option"

text \<open>The JSON body of a response, with the status code it is sent under.\<close>

record verror =
  param :: string
  msg :: string

datatype data = OneTask task | ManyTasks "task list"

record response =
  res_status :: nat
  res_success :: bool
  res_message :: "string option"
  res_count :: "nat option"
  res_data :: "data option"
  res_errors :: "verror list option"
  res_error :: "string option"

definition reply :: "nat \<Rightarrow> bool \<Rightarrow> response" where
  "reply code ok =
     \<lparr>res_status = code, res_success = ok, res_message = None, res_count = None,
      res_data = None, res_errors = None, res_error = None\<rparr>"

subsection \<open>JavaScript strings\<close>

definition truthy :: "string option \<Rightarrow> bool" where
  "truthy v = (case v of None \<Rightarrow> False | Some s \<Rightarrow> s \<noteq> [])"

definition isWhitespace :: "char \<Rightarrow> bool" where
  "isWhitespace c =
     (c \<in> set [CHR 0x09, CHR 0x0A, CHR 0x0B, CHR 0x0C, CHR 0x0D, CHR 0x20, CHR 0xA0])"

definition trim :: "string \<Rightarrow> string" where
  "trim s = rev (dropWhile isWhitespace (rev (dropWhile isWhitespace s)))"

definition startsWith :: "string \<Rightarrow> string \<Rightarrow> bool" where
  "startsWith s p = (take (length p) s = p)"

fun split :: "char \<Rightarrow> string \<Rightarrow> string list" where
  "split c [] = [[]]"
| "split c (x # xs) =
     (if x = c then [] # split c xs
      else (case split c xs of [] \<Rightarrow> [[x]] | p # ps \<Rightarrow> (x # p) # ps))"

definition at_index :: "'a list \<Rightarrow> nat \<Rightarrow> 'a option" where
  "at_index xs i = (if i < length xs then Some (xs ! i) else None)"

subsection \<open>Mongoose: queries on the collections\<close>

text \<open>
  The error of a string that is no \<^verbatim>\<open>ObjectId\<close>, with the message Mongoose gives it:
  \<^verbatim>\<open>Cast to ObjectId failed for value "v" (type string) at path "p" for model "M"\<close>.
\<close>

definition quoted :: "string \<Rightarrow> string" where
  "quoted s = [CHR 0x22] @ s @ [CHR 0x22]"

definition castError :: "string \<Rightarrow> string \<Rightarrow> string \<Rightarrow> js_error" where
  "castError v path model =
     \<lparr>err_name = ''CastError'',
      err_message = ''Cast to ObjectId failed for value '' @ quoted v @ '' (type string) at path ''
                    @ quoted path @ '' for model '' @ quoted model\<rparr>"

definition User_findById ::
  "(string \<Rightarrow> objectId option) \<Rightarrow> db \<Rightarrow> string \<Rightarrow> js_error + user_doc option" where
  "User_findById cast d ident =
     (case cast ident of
        None \<Rightarrow> Inl (castError ident ''_id'' ''User'')
      | Some i \<Rightarrow>
          (case failure d of
             Some e \<Rightarrow> Inl e
           | None \<Rightarrow> Inr (find (\<lambda>u. user_id u = i) (users d))))"

text \<open>\<^verbatim>\<open>Task.findOne({ _id: ident, user: uid })\<close>\<close>

definition Task_findOne ::
  "(string \<Rightarrow> objectId option) \<Rightarrow> db \<Rightarrow> string \<Rightarrow> objectId \<Rightarrow> js_error + task option" where
  "Task_findOne cast d ident uid =
     (case cast ident of
        None \<Rightarrow> Inl (castError ident ''_id'' ''Task'')
      | Some i \<Rightarrow>
          (case failure d of
             Some e \<Rightarrow> Inl e
           | None \<Rightarrow> Inr (find (\<lambda>t. task_id t = i \<and> user t = uid) (tasks d))))"

text \<open>
  \<^verbatim>\<open>Task.find(query).sort(sortOption)\<close>. The query is \<^verbatim>\<open>{ user, status?, priority? }\<close>.
  MongoDB compares strings by their bytes and puts a missing date before every date;
  among documents with equal keys the order of the collection is kept.
\<close>

record task_query =
  q_user :: objectId
  q_status :: "string option"
  q_priority :: "string option"

definition matches :: "task_query \<Rightarrow> task \<Rightarrow> bool" where
  "matches q t =
     (user t = q_user q
      \<and> (case q_status q of None \<Rightarrow> True | Some s \<Rightarrow> status t = s)
      \<and> (case q_priority q of None \<Rightarrow> True | Some p \<Rightarrow> priority t = p))"

datatype sort_field = CreatedAt | Title | DueDate

datatype direction = Ascending | Descending

definition sort_by :: "(task \<Rightarrow> 'k::linorder) \<Rightarrow> direction \<Rightarrow> task list \<Rightarrow> task list" where
  "sort_by key dir ts =
     (case dir of
        Ascending \<Rightarrow> sort_key key ts
      | Descending \<Rightarrow> rev (sort_key key (rev ts)))"

fun sort_tasks :: "sort_field \<times> direction \<Rightarrow> task list \<Rightarrow> task list" where
  "sort_tasks (CreatedAt, dir) ts = sort_by createdAt dir ts"
| "sort_tasks (Title, dir) ts = sort_by title dir ts"
| "sort_tasks (DueDate, dir) ts = sort_by dueDate dir ts"

definition Task_find ::
  "db \<Rightarrow> task_query \<Rightarrow> sort_field \<times> direction \<Rightarrow> js_error + task list" where
  "Task_find d q sortOption =
     (case failure d of
        Some e \<Rightarrow> Inl e
      | None \<Rightarrow> Inr (sort_tasks sortOption (filter (matches q) (tasks d))))"

text \<open>
  The static method \<^verbatim>\<open>getTasksByUser(userId, filters)\<close> of the model; the routes do not
  call it.
\<close>

definition getTasksByUser ::
  "db \<Rightarrow> objectId \<Rightarrow> string option \<times> string option \<Rightarrow> js_error + task list" where
  "getTasksByUser d userId filters =
     Task_find d
       \<lparr>q_user = userId,
        q_status = (if truthy (fst filters) then fst filters else None),
        q_priority = (if truthy (snd filters) then snd filters else None)\<rparr>
       (CreatedAt, Descending)"

text \<open>
  The value a client sends as \<^verbatim>\<open>dueDate\<close>, and the cast of the schema (\<^verbatim>\<open>dueDate: { type: Date }\<close>)
  that runs when the field is set. A number is a time in milliseconds and is a date when it
  lies within 8640000000000000 milliseconds of the epoch; the empty string is \<^verbatim>\<open>null\<close>; any
  other string is a date when the engine can read it. A value that is no date leaves the
  field as it was and records a \<^verbatim>\<open>CastError\<close> for the path, so that the document fails its
  validation when it is saved. The result is the recorded errors and the date to store.
\<close>

datatype date_value = DateNumber int | DateString string

fun digits :: "nat \<Rightarrow> string" where
  "digits n =
     (if n < 10 then [''0123456789'' ! n]
      else digits (n div 10) @ [''0123456789'' ! (n mod 10)])"

declare digits.simps [simp del]

definition decimal :: "int \<Rightarrow> string" where
  "decimal n = (if n < 0 then CHR ''-'' # digits (nat (- n)) else digits (nat n))"

definition castDateError :: "date_value \<Rightarrow> string \<times> string" where
  "castDateError v =
     (''dueDate'',
      ''Cast to date failed for value ''
      @ (case v of
           DateNumber n \<Rightarrow> quoted (decimal n) @ '' (type number)''
         | DateString s \<Rightarrow> quoted s @ '' (type string)'')
      @ '' at path '' @ quoted ''dueDate'')"

definition castDate ::
  "(string \<Rightarrow> date option) \<Rightarrow> date_value \<Rightarrow> (string \<times> string) list \<times> date option" where
  "castDate parse v =
     (case v of
        DateNumber n \<Rightarrow>
          if - 8640000000000000 \<le> n \<and> n \<le> 8640000000000000 then ([], Some n)
          else ([castDateError v], None)
      | DateString s \<Rightarrow>
          if s = [] then ([], None)
          else (case parse s of
                  Some d \<Rightarrow> ([], Some d)
                | None \<Rightarrow> ([castDateError v], None)))"

text \<open>
  The validators of \<^verbatim>\<open>taskSchema\<close>, run on a document before it is written: the failing
  paths with their messages, in the order of the schema.
\<close>

definition statuses :: "string list" where
  "statuses = [''pending'', ''in-progress'', ''completed'']"

definition priorities :: "string list" where
  "priorities = [''low'', ''medium'', ''high'']"

definition validate :: "task \<Rightarrow> (string \<times> string) list" where
  "validate t =
     (if title t = [] then [(''title'', ''Task title is required'')]
      else if length (title t) < 3 then [(''title'', ''Title must be at least 3 characters'')]
      else if 100 < length (title t) then [(''title'', ''Title cannot exceed 100 characters'')]
      else [])
     @ (case description t of
          None \<Rightarrow> []
        | Some s \<Rightarrow>
            if 500 < length s then [(''description'', ''Description cannot exceed 500 characters'')]
            else [])
     @ (if status t \<in> set statuses then []
        else [(''status'', ''`'' @ status t @ ''` is not a valid enum value for path `status`.'')])
     @ (if priority t \<in> set priorities then []
        else [(''priority'', ''`'' @ priority t @ ''` is not a valid enum value for path `priority`.'')])"

fun join :: "string \<Rightarrow> string list \<Rightarrow> string" where
  "join sep [] = []"
| "join sep [x] = x"
| "join sep (x # y # ys) = x @ sep @ join sep (y # ys)"

definition validationError :: "(string \<times> string) list \<Rightarrow> js_error" where
  "validationError es =
     \<lparr>err_name = ''ValidationError'',
      err_message = ''Task validation failed: '' @ join '', '' (map (\<lambda>(p, m). p @ '': '' @ m) es)\<rparr>"

definition duplicateKey :: js_error where
  "duplicateKey = \<lparr>err_name = ''MongoServerError'', err_message = ''E11000 duplicate key error''\<rparr>"

text \<open>
  \<^verbatim>\<open>Task.create({ title, description, status, priority, dueDate, user })\<close>. The schema trims
  \<^verbatim>\<open>title\<close> and \<^verbatim>\<open>description\<close> and casts \<^verbatim>\<open>dueDate\<close> when they are set; a missing title is
  the empty title, which the \<^verbatim>\<open>required\<close> validator rejects as well. The document is
  rejected with a \<^verbatim>\<open>ValidationError\<close> when a cast or a validator failed. \<open>new_id\<close> is the
  \<^verbatim>\<open>_id\<close> the driver generates; the unique index on \<^verbatim>\<open>_id\<close> rejects one that is already in
  the collection. The \<^verbatim>\<open>pre('save')\<close> hook and \<^verbatim>\<open>timestamps\<close> set \<^verbatim>\<open>updatedAt\<close>.
\<close>

definition Task_create ::
  "(string \<Rightarrow> date option) \<Rightarrow> db \<Rightarrow> objectId \<Rightarrow> date \<Rightarrow> string option \<Rightarrow> string option
     \<Rightarrow> string \<Rightarrow> string \<Rightarrow> date_value option \<Rightarrow> objectId \<Rightarrow> js_error + (task \<times> db)" where
  "Task_create parse d new_id now ttl descr st pr due uid =
     (let (castErrors, dueD) = (case due of None \<Rightarrow> ([], None) | Some v \<Rightarrow> castDate parse v);
          doc = \<lparr>task_id = new_id,
                 title = trim (case ttl of None \<Rightarrow> [] | Some s \<Rightarrow> s),
                 description = map_option trim descr,
                 status = st, priority = pr, dueDate = dueD, user = uid,
                 createdAt = now, updatedAt = now\<rparr>
      in case castErrors @ validate doc of
           e # es \<Rightarrow> Inl (validationError (e # es))
         | [] \<Rightarrow>
             (case failure d of
                Some e \<Rightarrow> Inl e
              | None \<Rightarrow>
                  if new_id \<in> set (map task_id (tasks d)) then Inl duplicateKey
                  else (let saved = doc\<lparr>updatedAt := now\<rparr>
                        in Inr (saved, d\<lparr>tasks := tasks d @ [saved]\<rparr>))))"

text \<open>
  \<^verbatim>\<open>task.save()\<close> on a document loaded from the collection and then modified; \<open>castErrors\<close>
  are the errors that the assignments to the document recorded.
\<close>

definition task_save ::
  "db \<Rightarrow> date \<Rightarrow> task \<times> (string \<times> string) list \<Rightarrow> js_error + (task \<times> db)" where
  "task_save d now modified =
     (case modified of (doc, castErrors) \<Rightarrow>
      case castErrors @ validate doc of
        e # es \<Rightarrow> Inl (validationError (e # es))
      | [] \<Rightarrow>
          (case failure d of
             Some e \<Rightarrow> Inl e
           | None \<Rightarrow>
               (let saved = doc\<lparr>updatedAt := now\<rparr>
                in Inr (saved,
                        d\<lparr>tasks := map (\<lambda>x. if task_id x = task_id saved then saved else x)
                                        (tasks d)\<rparr>))))"

text \<open>\<^verbatim>\<open>Task.findOneAndDelete({ _id: ident, user: uid })\<close>\<close>

definition Task_findOneAndDelete ::
  "(string \<Rightarrow> objectId option) \<Rightarrow> db \<Rightarrow> string \<Rightarrow> objectId
     \<Rightarrow> js_error + (task option \<times> db)" where
  "Task_findOneAndDelete cast d ident uid =
     (case cast ident of
        None \<Rightarrow> Inl (castError ident ''_id'' ''Task'')
      | Some i \<Rightarrow>
          (case failure d of
             Some e \<Rightarrow> Inl e
           | None \<Rightarrow>
               (case find (\<lambda>t. task_id t = i \<and> user t = uid) (tasks d) of
                  None \<Rightarrow> Inr (None, d)
                | Some t \<Rightarrow> Inr (Some t, d\<lparr>tasks := remove1 t (tasks d)\<rparr>))))"

subsection \<open>express-validator: the chains of the routes\<close>

text \<open>
  The request body. \<open>body_user\<close> is a \<^verbatim>\<open>user\<close> field that a client may send; no handler
  reads it.
\<close>

record body =
  body_title :: "string option"
  body_description :: "string option"
  body_status :: "string option"
  body_priority :: "string option"
  body_dueDate :: "date_value option"
  body_user :: "string option"

definition isLength :: "nat \<Rightarrow> nat option \<Rightarrow> string \<Rightarrow> bool" where
  "isLength mn mx s = (mn \<le> length s \<and> (case mx of None \<Rightarrow> True | Some m \<Rightarrow> length s \<le> m))"

definition isIn :: "string list \<Rightarrow> string \<Rightarrow> bool" where
  "isIn vs s = (s \<in> set vs)"

text \<open>
  One chain \<^verbatim>\<open>body(field)[.optional()].sanitizer().validator().withMessage(m)\<close> on the value
  \<open>v\<close> of the field: its errors and the value it leaves in the body. An optional chain skips
  an \<^verbatim>\<open>undefined\<close> field; otherwise an \<^verbatim>\<open>undefined\<close> value is checked as the empty string.
\<close>

definition chain ::
  "string \<Rightarrow> bool \<Rightarrow> (string \<Rightarrow> string) \<Rightarrow> (string \<Rightarrow> bool) \<Rightarrow> string \<Rightarrow> string option
     \<Rightarrow> verror list \<times> string option" where
  "chain field optional sanitizer validator m v =
     (if optional \<and> v = None then ([], None)
      else (let s = sanitizer (case v of None \<Rightarrow> [] | Some x \<Rightarrow> x)
            in (if validator s then [] else [\<lparr>param = field, msg = m\<rparr>], Some s)))"

text \<open>
  The four chains of a route, run in order: \<^verbatim>\<open>validationResult(req).array()\<close> and the
  sanitized body. The title chain is optional in \<^verbatim>\<open>router.put\<close> only.
\<close>

definition validators :: "bool \<Rightarrow> body \<Rightarrow> verror list \<times> body" where
  "validators title_optional b =
     (let (e1, t) = chain ''title'' title_optional trim (isLength 3 (Some 100))
                      ''Title must be between 3 and 100 characters'' (body_title b);
          (e2, dsc) = chain ''description'' True trim (isLength 0 (Some 500))
                      ''Description cannot exceed 500 characters'' (body_description b);
          (e3, s) = chain ''status'' True (\<lambda>x. x) (isIn [''pending'', ''in-progress'', ''completed''])
                      ''Invalid status'' (body_status b);
          (e4, p) = chain ''priority'' True (\<lambda>x. x) (isIn [''low'', ''medium'', ''high''])
                      ''Invalid priority'' (body_priority b)
      in (e1 @ e2 @ e3 @ e4,
          b\<lparr>body_title := t, body_description := dsc, body_status := s, body_priority := p\<rparr>))"

subsection \<open>Route handlers of \<^verbatim>\<open>routes/taskRoutes.js\<close>\<close>

text \<open>
  Every handler runs behind \<^verbatim>\<open>router.use(protect)\<close>; its argument \<open>u\<close> is \<^verbatim>\<open>req.user\<close>, the
  document the middleware resolved.
\<close>

text \<open>\<^verbatim>\<open>router.get('/:id')\<close>; \<open>ident\<close> is \<^verbatim>\<open>req.params.id\<close>.\<close>

definition get_task ::
  "(string \<Rightarrow> objectId option) \<Rightarrow> db \<Rightarrow> user_doc \<Rightarrow> string \<Rightarrow> response" where
  "get_task cast d u ident =
     (case Task_findOne cast d ident (user_id u) of
        Inr None \<Rightarrow> (reply 404 False)\<lparr>res_message := Some ''Task not found''\<rparr>
      | Inr (Some t) \<Rightarrow> (reply 200 True)\<lparr>res_data := Some (OneTask t)\<rparr>
      | Inl e \<Rightarrow>
          (reply 500 False)\<lparr>res_message := Some ''Error fetching task'',
                             res_error := Some (err_message e)\<rparr>)"

text \<open>\<^verbatim>\<open>router.get('/')\<close>; the query string is \<^verbatim>\<open>req.query\<close>.\<close>

record query =
  query_status :: "string option"
  query_priority :: "string option"
  query_sort :: "string option"

definition get_tasks :: "db \<Rightarrow> user_doc \<Rightarrow> query \<Rightarrow> response" where
  "get_tasks d u rq =
     (let q = \<lparr>q_user = user_id u,
               q_status = (if truthy (query_status rq) then query_status rq else None),
               q_priority = (if truthy (query_priority rq) then query_priority rq else None)\<rparr>;
          sortOption =
            (if query_sort rq = Some ''oldest'' then (CreatedAt, Ascending)
             else if query_sort rq = Some ''title'' then (Title, Ascending)
             else if query_sort rq = Some ''dueDate'' then (DueDate, Ascending)
             else (CreatedAt, Descending))
      in case Task_find d q sortOption of
           Inr ts \<Rightarrow>
             (reply 200 True)\<lparr>res_count := Some (length ts), res_data := Some (ManyTasks ts)\<rparr>
         | Inl e \<Rightarrow>
             (reply 500 False)\<lparr>res_message := Some ''Error fetching tasks'',
                                res_error := Some (err_message e)\<rparr>)"

text \<open>\<^verbatim>\<open>v || dflt\<close> on a string that may be \<^verbatim>\<open>undefined\<close>.\<close>

definition or_default :: "string option \<Rightarrow> string \<Rightarrow> string" where
  "or_default v dflt = (case v of None \<Rightarrow> dflt | Some s \<Rightarrow> if s = [] then dflt else s)"

text \<open>\<^verbatim>\<open>router.post('/')\<close>; \<open>b0\<close> is the body as the client sent it.\<close>

definition post_task ::
  "(string \<Rightarrow> date option) \<Rightarrow> db \<Rightarrow> user_doc \<Rightarrow> objectId \<Rightarrow> date \<Rightarrow> body \<Rightarrow> response \<times> db" where
  "post_task parse d u new_id now b0 =
     (let (errors, b) = validators False b0
      in if errors \<noteq> [] then
           ((reply 400 False)\<lparr>res_message := Some ''Validation failed'',
                               res_errors := Some errors\<rparr>, d)
         else
           (case Task_create parse d new_id now (body_title b) (body_description b)
                   (or_default (body_status b) ''pending'')
                   (or_default (body_priority b) ''medium'')
                   (body_dueDate b) (user_id u) of
              Inr (t, d') \<Rightarrow>
                ((reply 201 True)\<lparr>res_message := Some ''Task created successfully'',
                                   res_data := Some (OneTask t)\<rparr>, d')
            | Inl e \<Rightarrow>
                ((reply 500 False)\<lparr>res_message := Some ''Error creating task'',
                                    res_error := Some (err_message e)\<rparr>, d)))"

text \<open>
  The assignments of \<^verbatim>\<open>router.put('/:id')\<close>: \<^verbatim>\<open>if (title) task.title = title\<close> and so on.
  The setters of the schema trim \<^verbatim>\<open>title\<close> and \<^verbatim>\<open>description\<close> and cast \<^verbatim>\<open>dueDate\<close>. The result
  is the modified document and the errors its casts recorded.
\<close>

definition assign ::
  "(string \<Rightarrow> date option) \<Rightarrow> body \<Rightarrow> task \<Rightarrow> task \<times> (string \<times> string) list" where
  "assign parse b t =
     (let t1 = (case body_title b of
                  None \<Rightarrow> t | Some s \<Rightarrow> if s = [] then t else t\<lparr>title := trim s\<rparr>);
          t2 = (case body_description b of
                  None \<Rightarrow> t1 | Some s \<Rightarrow> t1\<lparr>description := Some (trim s)\<rparr>);
          t3 = (case body_status b of
                  None \<Rightarrow> t2 | Some s \<Rightarrow> if s = [] then t2 else t2\<lparr>status := s\<rparr>);
          t4 = (case body_priority b of
                  None \<Rightarrow> t3 | Some s \<Rightarrow> if s = [] then t3 else t3\<lparr>priority := s\<rparr>)
      in (case body_dueDate b of
            None \<Rightarrow> (t4, [])
          | Some v \<Rightarrow>
              (case castDate parse v of
                 ([], dueD) \<Rightarrow> (t4\<lparr>dueDate := dueD\<rparr>, [])
               | (e # es, dueD) \<Rightarrow> (t4, e # es))))"

definition put_task ::
  "(string \<Rightarrow> objectId option) \<Rightarrow> (string \<Rightarrow> date option) \<Rightarrow> db \<Rightarrow> user_doc \<Rightarrow> date \<Rightarrow> string
     \<Rightarrow> body \<Rightarrow> response \<times> db" where
  "put_task cast parse d u now ident b0 =
     (let (errors, b) = validators True b0
      in if errors \<noteq> [] then
           ((reply 400 False)\<lparr>res_message := Some ''Validation failed'',
                               res_errors := Some errors\<rparr>, d)
         else
           (case Task_findOne cast d ident (user_id u) of
              Inl e \<Rightarrow>
                ((reply 500 False)\<lparr>res_message := Some ''Error updating task'',
                                    res_error := Some (err_message e)\<rparr>, d)
            | Inr None \<Rightarrow> ((reply 404 False)\<lparr>res_message := Some ''Task not found''\<rparr>, d)
            | Inr (Some t) \<Rightarrow>
                (case task_save d now (assign parse b t) of
                   Inl e \<Rightarrow>
                     ((reply 500 False)\<lparr>res_message := Some ''Error updating task'',
                                         res_error := Some (err_message e)\<rparr>, d)
                 | Inr (t', d') \<Rightarrow>
                     ((reply 200 True)\<lparr>res_message := Some ''Task updated successfully'',
                                        res_data := Some (OneTask t')\<rparr>, d'))))"

text \<open>\<^verbatim>\<open>router.delete('/:id')\<close>\<close>

definition delete_task ::
  "(string \<Rightarrow> objectId option) \<Rightarrow> db \<Rightarrow> user_doc \<Rightarrow> string \<Rightarrow> response \<times> db" where
  "delete_task cast d u ident =
     (case Task_findOneAndDelete cast d ident (user_id u) of
        Inl e \<Rightarrow>
          ((reply 500 False)\<lparr>res_message := Some ''Error deleting task'',
                              res_error := Some (err_message e)\<rparr>, d)
      | Inr (None, d') \<Rightarrow> ((reply 404 False)\<lparr>res_message := Some ''Task not found''\<rparr>, d')
      | Inr (Some t, d') \<Rightarrow>
          ((reply 200 True)\<lparr>res_message := Some ''Task deleted successfully'',
                             res_data := Some (OneTask t)\<rparr>, d'))"

subsection \<open>jsonwebtoken\<close>

text \<open>
  A token is treated symbolically: the compact serialisation (a string) decodes to its
  payload and the key its signature was made with. The codec of the library (base64url,
  JSON, HMAC) is a pair of parameters: \<open>enc\<close> serialises, \<open>dec\<close> parses and gives \<open>None\<close>
  for a string that is no token. Times in a payload are in seconds.
\<close>

record jwt_payload =
  jwt_id :: string
  iat :: int
  nbf :: "int option"
  exp :: "int option"

record jws =
  payload :: jwt_payload
  signing_key :: string

text \<open>\<^verbatim>\<open>jwt.sign({ id }, secret, { expiresIn: '30d' })\<close>: thirty days are 2592000 seconds.\<close>

definition jwt_sign :: "(jws \<Rightarrow> string) \<Rightarrow> date \<Rightarrow> string \<Rightarrow> string option \<Rightarrow> js_error + string" where
  "jwt_sign enc now ident secret =
     (case secret of
        None \<Rightarrow> Inl \<lparr>err_name = ''Error'', err_message = ''secretOrPrivateKey must have a value''\<rparr>
      | Some k \<Rightarrow>
          if k = [] then
            Inl \<lparr>err_name = ''Error'', err_message = ''secretOrPrivateKey must have a value''\<rparr>
          else (let timestamp = now div 1000
                in Inr (enc \<lparr>payload = \<lparr>jwt_id = ident, iat = timestamp, nbf = None,
                                         exp = Some (timestamp + 2592000)\<rparr>,
                             signing_key = k\<rparr>)))"

definition jsonWebTokenError :: "string \<Rightarrow> js_error" where
  "jsonWebTokenError m = \<lparr>err_name = ''JsonWebTokenError'', err_message = m\<rparr>"

text \<open>\<^verbatim>\<open>jwt.verify(token, secret)\<close> at the clock \<open>now\<close> (milliseconds).\<close>

definition jwt_verify ::
  "(string \<Rightarrow> jws option) \<Rightarrow> date \<Rightarrow> string option \<Rightarrow> string option \<Rightarrow> js_error + jwt_payload" where
  "jwt_verify dec now token secret =
     (case token of
        None \<Rightarrow> Inl (jsonWebTokenError ''jwt must be provided'')
      | Some tok \<Rightarrow>
          if tok = [] then Inl (jsonWebTokenError ''jwt must be provided'')
          else if length (split CHR ''.'' tok) \<noteq> 3 then Inl (jsonWebTokenError ''jwt malformed'')
          else
            (case dec tok of
               None \<Rightarrow> Inl (jsonWebTokenError ''invalid token'')
             | Some j \<Rightarrow>
                 if \<not> truthy secret then
                   Inl (jsonWebTokenError ''secret or public key must be provided'')
                 else if secret \<noteq> Some (signing_key j) then
                   Inl (jsonWebTokenError ''invalid signature'')
                 else
                   (let clockTimestamp = now div 1000
                    in if (case nbf (payload j) of None \<Rightarrow> False | Some n \<Rightarrow> clockTimestamp < n)
                       then Inl \<lparr>err_name = ''NotBeforeError'', err_message = ''jwt not active''\<rparr>
                       else if (case exp (payload j) of
                                  None \<Rightarrow> False | Some e \<Rightarrow> e \<le> clockTimestamp)
                       then Inl \<lparr>err_name = ''TokenExpiredError'', err_message = ''jwt expired''\<rparr>
                       else Inr (payload j))))"

subsection \<open>\<^verbatim>\<open>middleware/authMiddleware.js\<close>\<close>

text \<open>\<open>secret\<close> is \<^verbatim>\<open>process.env.JWT_SECRET\<close>.\<close>

definition generateToken ::
  "(jws \<Rightarrow> string) \<Rightarrow> string option \<Rightarrow> date \<Rightarrow> string \<Rightarrow> js_error + string" where
  "generateToken enc secret now ident = jwt_sign enc now ident secret"

text \<open>The \<^verbatim>\<open>catch\<close> block of \<^verbatim>\<open>protect\<close>.\<close>

definition protect_catch :: "js_error \<Rightarrow> response" where
  "protect_catch e =
     (if err_name e = ''JsonWebTokenError'' then
        (reply 401 False)\<lparr>res_message := Some ''Invalid token''\<rparr>
      else if err_name e = ''TokenExpiredError'' then
        (reply 401 False)\<lparr>res_message := Some ''Token expired''\<rparr>
      else (reply 401 False)\<lparr>res_message := Some ''Not authorized, token failed''\<rparr>)"

text \<open>
  \<^verbatim>\<open>protect\<close>; \<open>authorization\<close> is \<^verbatim>\<open>req.headers.authorization\<close>. \<open>Inl\<close> is the response the
  middleware sends itself, \<open>Inr u\<close> is \<^verbatim>\<open>next()\<close> with \<^verbatim>\<open>req.user = u\<close>.
\<close>

definition protect ::
  "(string \<Rightarrow> objectId option) \<Rightarrow> (string \<Rightarrow> jws option) \<Rightarrow> string option \<Rightarrow> date \<Rightarrow> db
     \<Rightarrow> string option \<Rightarrow> response + user_doc" where
  "protect cast dec secret now d authorization =
     (case authorization of
        None \<Rightarrow> Inl ((reply 401 False)\<lparr>res_message := Some ''Not authorized, no token provided''\<rparr>)
      | Some h \<Rightarrow>
          if h \<noteq> [] \<and> startsWith h ''Bearer'' then
            (let token = at_index (split CHR '' '' h) 1
             in case jwt_verify dec now token secret of
                  Inl e \<Rightarrow> Inl (protect_catch e)
                | Inr decoded \<Rightarrow>
                    (case User_findById cast d (jwt_id decoded) of
                       Inl e \<Rightarrow> Inl (protect_catch e)
                     | Inr None \<Rightarrow>
                         Inl ((reply 401 False)\<lparr>res_message := Some ''User not found''\<rparr>)
                     | Inr (Some u) \<Rightarrow> Inr u))
          else Inl ((reply 401 False)\<lparr>res_message := Some ''Not authorized, no token provided''\<rparr>))"

text \<open>
  \<^verbatim>\<open>POST /api/tasks\<close> as the router runs it: \<^verbatim>\<open>router.use(protect)\<close>, then the handler.
\<close>

definition POST_tasks ::
  "(string \<Rightarrow> objectId option) \<Rightarrow> (string \<Rightarrow> jws option) \<Rightarrow> (string \<Rightarrow> date option)
     \<Rightarrow> string option \<Rightarrow> date \<Rightarrow> objectId \<Rightarrow> db \<Rightarrow> string option \<Rightarrow> body \<Rightarrow> response \<times> db" where
  "POST_tasks cast dec parse secret now new_id d authorization b =
     (case protect cast dec secret now d authorization of
        Inl r \<Rightarrow> (r, d)
      | Inr u \<Rightarrow> post_task parse d u new_id now b)"

subsection \<open>The state of the collection\<close>

text \<open>
  What the unique index on \<^verbatim>\<open>_id\<close> and the validators of the schema guarantee of the
  tasks collection: no identifier occurs twice, and every stored task passes the schema.
\<close>

definition wf_tasks :: "task list \<Rightarrow> bool" where
  "wf_tasks ts = (distinct (map task_id ts) \<and> list_all (\<lambda>t. validate t = []) ts)"

subsection \<open>A concrete cast\<close>

text \<open>
  The cast of the 24-digit hexadecimal form of an \<^verbatim>\<open>ObjectId\<close>, which Mongoose accepts in
  every version. The general results below hold for any cast; the concrete instances use
  this one.
\<close>

definition hexDigit :: "char \<Rightarrow> nat option" where
  "hexDigit c =
     (if c \<in> set ''0123456789'' then Some (of_char c - 48)
      else if c \<in> set ''abcdef'' then Some (of_char c - 87)
      else if c \<in> set ''ABCDEF'' then Some (of_char c - 55)
      else None)"

definition castObjectId :: "string \<Rightarrow> objectId option" where
  "castObjectId s =
     (if length s = 24 then
        fold (\<lambda>c acc. case acc of
                         None \<Rightarrow> None
                       | Some a \<Rightarrow> (case hexDigit c of None \<Rightarrow> None | Some h \<Rightarrow> Some (16 * a + h)))
             s (Some 0)
      else None)"

subsection \<open>A concrete database\<close>

text \<open>Two users; Alice owns the first task, Bob the second.\<close>

definition alice :: user_doc where
  "alice = \<lparr>user_id = 1, user_name = ''Alice'', user_email = ''alice@x.com''\<rparr>"

definition bob :: user_doc where
  "bob = \<lparr>user_id = 2, user_name = ''Bob'', user_email = ''bob@x.com''\<rparr>"

definition milk :: task where
  "milk = \<lparr>task_id = 10, title = ''Buy milk'', description = None, status = ''pending'',
           priority = ''medium'', dueDate = None, user = 1, createdAt = 1000, updatedAt = 1000\<rparr>"

definition report :: task where
  "report = \<lparr>task_id = 11, title = ''Annual report'', description = Some ''Q4 figures'',
             status = ''in-progress'', priority = ''high'', dueDate = Some 90000, user = 2,
             createdAt = 2000, updatedAt = 3000\<rparr>"

definition db0 :: db where
  "db0 = \<lparr>users = [alice, bob], tasks = [milk, report], failure = None\<rparr>"

text \<open>The same database after Alice has added an older task.\<close>

definition call :: task where
  "call = \<lparr>task_id = 13, title = ''Call Zoe'', description = None, status = ''pending'',
           priority = ''low'', dueDate = Some 80000, user = 1, createdAt = 500, updatedAt = 500\<rparr>"

definition db1 :: db where
  "db1 = \<lparr>users = [alice, bob], tasks = [milk, report, call], failure = None\<rparr>"

text \<open>
  A token for Alice, signed with the secret \<^verbatim>\<open>s3cret\<close> at second 1700000000, and a codec that
  knows this one token.
\<close>

definition token0 :: jws where
  "token0 = \<lparr>payload = \<lparr>jwt_id = ''000000000000000000000001'', iat = 1700000000, nbf = None,
                         exp = Some 1702592000\<rparr>,
             signing_key = ''s3cret''\<rparr>"

definition enc0 :: "jws \<Rightarrow> string" where
  "enc0 j = (if j = token0 then ''h.p.s'' else ''other'')"

definition dec0 :: "string \<Rightarrow> jws option" where
  "dec0 s = (if s = ''h.p.s'' then Some token0 else None)"

text \<open>The database while the persistence layer is down.\<close>

definition db_down :: db where
  "db_down = db0\<lparr>failure := Some \<lparr>err_name = ''MongoNetworkError'',
                                  err_message = ''connect ECONNREFUSED 10.0.3.7:27017''\<rparr>\<rparr>"

text \<open>A reader of date strings that knows one date, the second day of 1970.\<close>

definition parse0 :: "string \<Rightarrow> date option" where
  "parse0 s = (if s = ''1970-01-02'' then Some 86400000 else None)"

text \<open>
  Request bodies: a title with leading blanks; a body that breaks two rules; the first
  title with a due date; a title of 100 letters between two blanks; a title of two letters
  between blanks; a due date beyond the range of \<^verbatim>\<open>Date\<close>.
\<close>

definition spaced_body :: body where
  "spaced_body = \<lparr>body_title = Some ''  Buy milk'', body_description = None, body_status = None,
                   body_priority = None, body_dueDate = None, body_user = None\<rparr>"

definition bad_body :: body where
  "bad_body = \<lparr>body_title = Some ''ab'', body_description = None, body_status = Some ''done'',
                body_priority = Some ''high'', body_dueDate = None, body_user = None\<rparr>"

definition dated_body :: body where
  "dated_body = \<lparr>body_title = Some ''  Buy milk'', body_description = None, body_status = None,
                  body_priority = None, body_dueDate = Some (DateString ''1970-01-02''),
                  body_user = None\<rparr>"

definition padded_title :: string where
  "padded_title = '' '' @ replicate 100 CHR ''a'' @ '' ''"

definition padded_body :: body where
  "padded_body = \<lparr>body_title = Some padded_title,
                   body_description = None, body_status = None, body_priority = None,
                   body_dueDate = None, body_user = None\<rparr>"

definition short_body :: body where
  "short_body = \<lparr>body_title = Some ''  ab  '', body_description = None, body_status = None,
                  body_priority = None, body_dueDate = None, body_user = None\<rparr>"

definition late_body :: body where
  "late_body = \<lparr>body_title = Some ''abc'', body_description = None, body_status = None,
                 body_priority = None, body_dueDate = Some (DateNumber 8640000000000001),
                 body_user = None\<rparr>"

section \<open>Properties\<close>

subsection \<open>Lookups in a collection\<close>

lemma find_unique:
  assumes "distinct (map k xs)" and "x \<in> set xs" and "P x"
    and "\<And>y. y \<in> set xs \<Longrightarrow> P y \<Longrightarrow> k y = k x"
  shows "find P xs = Some x"
  using assms
proof (induction xs)
  case Nil
  then show ?case by simp
next
  case (Cons a xs)
  show ?case
  proof (cases "P a")
    case True
    have "k a = k x" using Cons.prems(4) True by simp
    moreover have "a = x \<or> x \<in> set xs" using Cons.prems(2) by auto
    ultimately have "a = x" using Cons.prems(1) by force
    then show ?thesis using True by simp
  next
    case False
    then have x: "x \<in> set xs" using Cons.prems(2,3) by auto
    have d: "distinct (map k xs)" using Cons.prems(1) by simp
    have "\<And>y. y \<in> set xs \<Longrightarrow> P y \<Longrightarrow> k y = k x"
      using Cons.prems(4) by (meson list.set_intros(2))
    then have "find P xs = Some x"
      using Cons.IH [OF d x Cons.prems(3)] by blast
    then show ?thesis using False by simp
  qed
qed

lemma find_None_iff_all: "find P xs = None \<longleftrightarrow> (\<forall>x \<in> set xs. \<not> P x)"
  by (induction xs) auto

subsection \<open>Trimming\<close>

lemma trailing_prefix: "a = rev (dropWhile P (rev a)) @ rev (takeWhile P (rev a))"
proof -
  have "rev (takeWhile P (rev a) @ dropWhile P (rev a)) = rev (rev a)"
    by (simp only: takeWhile_dropWhile_id)
  then show ?thesis by (simp only: rev_append rev_rev_ident)
qed

lemma dropWhile_trailing:
  assumes "a = [] \<or> \<not> P (hd a)"
  shows "dropWhile P (rev (dropWhile P (rev a))) = rev (dropWhile P (rev a))"
proof (cases "rev (dropWhile P (rev a))")
  case Nil
  then show ?thesis by (simp only: dropWhile.simps)
next
  case (Cons x xs)
  have "a = (x # xs) @ rev (takeWhile P (rev a))"
    using trailing_prefix [of a P] Cons by simp
  then have "a \<noteq> [] \<and> hd a = x" by (metis append_Cons list.sel(1) list.distinct(1))
  then have "\<not> P x" using assms by auto
  then show ?thesis using Cons by simp
qed

lemma trim_trim: "trim (trim s) = trim s"
proof -
  let ?a = "dropWhile isWhitespace s"
  have "?a = [] \<or> \<not> isWhitespace (hd ?a)"
    by (metis hd_dropWhile)
  then have "dropWhile isWhitespace (trim s) = trim s"
    unfolding trim_def by (rule dropWhile_trailing)
  then show ?thesis
    by (simp add: trim_def)
qed

subsection \<open>The validator chains\<close>

lemma chain_fst:
  "fst (chain f opt san val m v) =
     (if opt \<and> v = None then []
      else if val (san (case v of None \<Rightarrow> [] | Some x \<Rightarrow> x)) then []
      else [\<lparr>param = f, msg = m\<rparr>])"
  by (simp add: chain_def Let_def)

lemma chain_snd:
  "snd (chain f opt san val m v) =
     (if opt \<and> v = None then None else Some (san (case v of None \<Rightarrow> [] | Some x \<Rightarrow> x)))"
  by (simp add: chain_def Let_def)

lemma validators_fst:
  "fst (validators opt b) =
     fst (chain ''title'' opt trim (isLength 3 (Some 100))
            ''Title must be between 3 and 100 characters'' (body_title b))
     @ fst (chain ''description'' True trim (isLength 0 (Some 500))
            ''Description cannot exceed 500 characters'' (body_description b))
     @ fst (chain ''status'' True (\<lambda>x. x) (isIn [''pending'', ''in-progress'', ''completed''])
            ''Invalid status'' (body_status b))
     @ fst (chain ''priority'' True (\<lambda>x. x) (isIn [''low'', ''medium'', ''high''])
            ''Invalid priority'' (body_priority b))"
  by (simp only: validators_def Let_def split_beta fst_conv)

lemma validators_snd:
  "snd (validators opt b) =
     b\<lparr>body_title := snd (chain ''title'' opt trim (isLength 3 (Some 100))
            ''Title must be between 3 and 100 characters'' (body_title b)),
       body_description := snd (chain ''description'' True trim (isLength 0 (Some 500))
            ''Description cannot exceed 500 characters'' (body_description b)),
       body_status := snd (chain ''status'' True (\<lambda>x. x) (isIn [''pending'', ''in-progress'', ''completed''])
            ''Invalid status'' (body_status b)),
       body_priority := snd (chain ''priority'' True (\<lambda>x. x) (isIn [''low'', ''medium'', ''high''])
            ''Invalid priority'' (body_priority b))\<rparr>"
  by (simp only: validators_def Let_def split_beta snd_conv)

lemma title_chain_params:
  "map param (fst (chain ''title'' False trim (isLength 3 (Some 100)) m v)) =
     (if length (trim (case v of None \<Rightarrow> [] | Some s \<Rightarrow> s)) < 3
         \<or> 100 < length (trim (case v of None \<Rightarrow> [] | Some s \<Rightarrow> s))
      then [''title''] else [])"
  by (auto simp add: chain_fst isLength_def)

lemma description_chain_params:
  "map param (fst (chain ''description'' True trim (isLength 0 (Some 500)) m v)) =
     (if (case v of None \<Rightarrow> False | Some s \<Rightarrow> 500 < length (trim s))
      then [''description''] else [])"
  by (cases v) (auto simp add: chain_fst isLength_def)

lemma enum_chain_params:
  "map param (fst (chain f True (\<lambda>x. x) (isIn vs) m v)) =
     (if (case v of None \<Rightarrow> False | Some s \<Rightarrow> s \<notin> set vs) then [f] else [])"
  by (cases v) (auto simp add: chain_fst isIn_def)

subsection \<open>Creating a document\<close>

lemma validate_ok:
  "validate t = [] \<longleftrightarrow>
     3 \<le> length (title t) \<and> length (title t) \<le> 100
     \<and> (case description t of None \<Rightarrow> True | Some s \<Rightarrow> length s \<le> 500)
     \<and> status t \<in> set statuses \<and> priority t \<in> set priorities"
  by (cases "description t") (auto simp add: validate_def)

lemma or_default_enum:
  assumes "case v of None \<Rightarrow> True | Some s \<Rightarrow> s \<in> set vs" and "dflt \<in> set vs" and "[] \<notin> set vs"
  shows "or_default v dflt \<in> set vs"
    and "or_default v dflt = (case v of None \<Rightarrow> dflt | Some s \<Rightarrow> s)"
  using assms by (cases v; auto simp add: or_default_def)+

lemma find_snoc:
  assumes "\<forall>y \<in> set xs. \<not> P y" and "P x"
  shows "find P (xs @ [x]) = Some x"
  using assms by (induction xs) auto

lemma Task_create_ok:
  assumes "failure d = None" and "new_id \<notin> set (map task_id (tasks d))"
    and "(case due of None \<Rightarrow> ([], None) | Some v \<Rightarrow> castDate parse v) = ([], dueD)"
    and "doc = \<lparr>task_id = new_id, title = trim (case ttl of None \<Rightarrow> [] | Some s \<Rightarrow> s),
                 description = map_option trim descr, status = st, priority = pr,
                 dueDate = dueD, user = uid, createdAt = now, updatedAt = now\<rparr>"
    and "validate doc = []"
  shows "Task_create parse d new_id now ttl descr st pr due uid =
           Inr (doc, d\<lparr>tasks := tasks d @ [doc]\<rparr>)"
  using assms(1,2,5) unfolding assms(4) Task_create_def Let_def assms(3) prod.case
  by simp

lemma map_option_trim_trim: "map_option trim (map_option trim v) = map_option trim v"
  by (cases v) (simp_all add: trim_trim)


lemma valid_body_no_errors:
  assumes "body_title b = Some ttl" and "3 \<le> length (trim ttl)" and "length (trim ttl) \<le> 100"
    and "case body_description b of None \<Rightarrow> True | Some s \<Rightarrow> length (trim s) \<le> 500"
    and "case body_status b of None \<Rightarrow> True | Some s \<Rightarrow> s \<in> set statuses"
    and "case body_priority b of None \<Rightarrow> True | Some s \<Rightarrow> s \<in> set priorities"
  shows "fst (validators opt b) = []"
proof -
  have 1: "fst (chain ''title'' opt trim (isLength 3 (Some 100)) m (body_title b)) = []" for m
    using assms(1-3) by (simp add: chain_fst isLength_def)
  have 2: "fst (chain ''description'' True trim (isLength 0 (Some 500)) m (body_description b)) = []" for m
    using assms(4) by (cases "body_description b") (simp_all add: chain_fst isLength_def)
  have 3: "fst (chain ''status'' True (\<lambda>x. x) (isIn [''pending'', ''in-progress'', ''completed'']) m
             (body_status b)) = []" for m
    using assms(5) by (cases "body_status b") (simp_all add: chain_fst isIn_def statuses_def)
  have 4: "fst (chain ''priority'' True (\<lambda>x. x) (isIn [''low'', ''medium'', ''high'']) m
             (body_priority b)) = []" for m
    using assms(6) by (cases "body_priority b") (simp_all add: chain_fst isIn_def priorities_def)
  show ?thesis
    by (simp only: validators_fst 1 2 3 4 append_Nil)
qed

lemma sanitized_body:
  "body_title (snd (validators opt b)) =
     (if opt \<and> body_title b = None then None
      else Some (trim (case body_title b of None \<Rightarrow> [] | Some s \<Rightarrow> s)))"
  "body_description (snd (validators opt b)) = map_option trim (body_description b)"
  "body_status (snd (validators opt b)) = body_status b"
  "body_priority (snd (validators opt b)) = body_priority b"
  "body_dueDate (snd (validators opt b)) = body_dueDate b"
  "body_user (snd (validators opt b)) = body_user b"
proof -
  show "body_title (snd (validators opt b)) =
     (if opt \<and> body_title b = None then None
      else Some (trim (case body_title b of None \<Rightarrow> [] | Some s \<Rightarrow> s)))"
    by (simp add: validators_snd chain_snd)
  show "body_description (snd (validators opt b)) = map_option trim (body_description b)"
    by (cases "body_description b") (simp_all add: validators_snd chain_snd)
  show "body_status (snd (validators opt b)) = body_status b"
    by (cases "body_status b") (simp_all add: validators_snd chain_snd)
  show "body_priority (snd (validators opt b)) = body_priority b"
    by (cases "body_priority b") (simp_all add: validators_snd chain_snd)
  show "body_dueDate (snd (validators opt b)) = body_dueDate b"
    by (simp add: validators_snd)
  show "body_user (snd (validators opt b)) = body_user b"
    by (simp add: validators_snd)
qed

subsection \<open>The concrete instances\<close>

lemma cast_0a: "castObjectId ''00000000000000000000000a'' = Some 10"
  by (simp add: castObjectId_def hexDigit_def)

lemma cast_0b: "castObjectId ''00000000000000000000000b'' = Some 11"
  by (simp add: castObjectId_def hexDigit_def)

lemma cast_0c: "castObjectId ''00000000000000000000000c'' = Some 12"
  by (simp add: castObjectId_def hexDigit_def)

lemma db0_simps:
  "failure db0 = None" "tasks db0 = [milk, report]" "users db0 = [alice, bob]"
  by (simp_all add: db0_def)

lemma db0_distinct: "distinct (map task_id (tasks db0))"
  by (simp add: db0_def milk_def report_def)

subsection \<open>Reading one task\<close>

text \<open>
  C1. Let the identifier in the path be a well-formed \<^verbatim>\<open>ObjectId\<close> and let the database
  answer. If the collection holds a task with that identifier whose owner is the caller,
  \<^verbatim>\<open>GET /tasks/:id\<close> answers 200 with exactly that task. In every other case, that is when no
  task has the identifier and equally when the task with the identifier belongs to someone
  else, the answer is one and the same response: 404 with the body
  \<^verbatim>\<open>{ success: false, message: 'Task not found' }\<close>. So the answer is the task exactly when it
  exists and the caller owns it, and the two kinds of miss cannot be told apart.
\<close>

theorem get_task_owner_only:
  assumes "cast ident = Some i" and "failure d = None" and "distinct (map task_id (tasks d))"
  shows "(\<forall>t \<in> set (tasks d). task_id t = i \<and> user t = user_id u \<longrightarrow>
            get_task cast d u ident =
              \<lparr>res_status = 200, res_success = True, res_message = None, res_count = None,
               res_data = Some (OneTask t), res_errors = None, res_error = None\<rparr>)
       \<and> ((\<forall>t \<in> set (tasks d). task_id t = i \<longrightarrow> user t \<noteq> user_id u) \<longrightarrow>
            get_task cast d u ident =
              \<lparr>res_status = 404, res_success = False, res_message = Some ''Task not found'',
               res_count = None, res_data = None, res_errors = None, res_error = None\<rparr>)"
proof (intro conjI ballI impI)
  fix t assume t: "t \<in> set (tasks d)" "task_id t = i \<and> user t = user_id u"
  have "find (\<lambda>x. task_id x = i \<and> user x = user_id u) (tasks d) = Some t"
    by (rule find_unique [where k = task_id]) (use assms(3) t in auto)
  then show "get_task cast d u ident =
              \<lparr>res_status = 200, res_success = True, res_message = None, res_count = None,
               res_data = Some (OneTask t), res_errors = None, res_error = None\<rparr>"
    using assms(1,2) by (simp add: get_task_def Task_findOne_def reply_def)
next
  assume "\<forall>t \<in> set (tasks d). task_id t = i \<longrightarrow> user t \<noteq> user_id u"
  then have "find (\<lambda>x. task_id x = i \<and> user x = user_id u) (tasks d) = None"
    by (auto simp: find_None_iff_all)
  then show "get_task cast d u ident =
              \<lparr>res_status = 404, res_success = False, res_message = Some ''Task not found'',
               res_count = None, res_data = None, res_errors = None, res_error = None\<rparr>"
    using assms(1,2) by (simp add: get_task_def Task_findOne_def reply_def)
qed

text \<open>
  Alice reads her task; Bob asks for the same identifier, and Alice asks for an identifier
  that no task has: both get the same 404.
\<close>

theorem get_task_owner_only_witness:
  "castObjectId ''00000000000000000000000a'' = Some 10
   \<and> castObjectId ''00000000000000000000000c'' = Some 12
   \<and> failure db0 = None \<and> distinct (map task_id (tasks db0))
   \<and> get_task castObjectId db0 alice ''00000000000000000000000a'' =
       \<lparr>res_status = 200, res_success = True, res_message = None, res_count = None,
        res_data = Some (OneTask milk), res_errors = None, res_error = None\<rparr>
   \<and> get_task castObjectId db0 bob ''00000000000000000000000a'' =
       \<lparr>res_status = 404, res_success = False, res_message = Some ''Task not found'',
        res_count = None, res_data = None, res_errors = None, res_error = None\<rparr>
   \<and> get_task castObjectId db0 alice ''00000000000000000000000c'' =
       get_task castObjectId db0 bob ''00000000000000000000000a''"
proof -
  note own = get_task_owner_only
    [where cast = castObjectId and u = alice, OF cast_0a db0_simps(1) db0_distinct]
  note other = get_task_owner_only
    [where cast = castObjectId and u = bob, OF cast_0a db0_simps(1) db0_distinct]
  note missing = get_task_owner_only
    [where cast = castObjectId and u = alice, OF cast_0c db0_simps(1) db0_distinct]
  have 1: "get_task castObjectId db0 alice ''00000000000000000000000a'' =
       \<lparr>res_status = 200, res_success = True, res_message = None, res_count = None,
        res_data = Some (OneTask milk), res_errors = None, res_error = None\<rparr>"
    using own by (simp add: db0_simps milk_def report_def alice_def)
  have 2: "get_task castObjectId db0 bob ''00000000000000000000000a'' =
       \<lparr>res_status = 404, res_success = False, res_message = Some ''Task not found'',
        res_count = None, res_data = None, res_errors = None, res_error = None\<rparr>"
    using other by (simp add: db0_simps milk_def report_def bob_def)
  have 3: "get_task castObjectId db0 alice ''00000000000000000000000c'' =
       \<lparr>res_status = 404, res_success = False, res_message = Some ''Task not found'',
        res_count = None, res_data = None, res_errors = None, res_error = None\<rparr>"
    using missing by (simp add: db0_simps milk_def report_def alice_def)
  show ?thesis
    using 1 2 3 cast_0a cast_0c db0_simps(1) db0_distinct by simp
qed

subsection \<open>Validation of a new task\<close>

lemma trim_padded: "trim padded_title = replicate 100 CHR ''a''"
proof -
  have a: "\<not> isWhitespace CHR ''a''" and sp: "isWhitespace CHR '' ''"
    by (simp_all add: isWhitespace_def)
  have 1: "dropWhile isWhitespace ('' '' @ replicate 100 CHR ''a'' @ '' '')
             = replicate 100 CHR ''a'' @ '' ''"
    using a sp by (simp add: numeral_eq_Suc)
  have 2: "rev (replicate 100 CHR ''a'' @ '' '') = CHR '' '' # replicate 100 CHR ''a''"
    by simp
  have 3: "dropWhile isWhitespace (CHR '' '' # replicate 100 CHR ''a'') = replicate 100 CHR ''a''"
    using a sp by (simp add: numeral_eq_Suc)
  show ?thesis
    unfolding trim_def padded_title_def 1 2 3 by simp
qed

lemma length_padded: "length padded_title = 102"
  by (simp add: padded_title_def)

text \<open>
  C8, as stated, fails: the chains trim the title and the description before they measure
  them, so an input whose title is longer than 100 characters is accepted when the excess
  is surrounding white space. A title of 100 letters between two blanks has 102 characters
  and \<^verbatim>\<open>POST /tasks\<close> answers 201.
\<close>

theorem padded_title_accepted:
  "body_title padded_body = Some padded_title
   \<and> length padded_title = 102
   \<and> fst (post_task parse0 db0 alice 12 5000 padded_body) =
       \<lparr>res_status = 201, res_success = True,
        res_message = Some ''Task created successfully'', res_count = None,
        res_data = Some (OneTask \<lparr>task_id = 12, title = replicate 100 CHR ''a'',
                                 description = None, status = ''pending'',
                                 priority = ''medium'', dueDate = None, user = 1,
                                 createdAt = 5000, updatedAt = 5000\<rparr>),
        res_errors = None, res_error = None\<rparr>"
proof -
  have tt: "trim (replicate 100 CHR ''a'') = replicate 100 CHR ''a''"
    using trim_trim [of padded_title] unfolding trim_padded .
  have "fst (post_task parse0 db0 alice 12 5000 padded_body) =
       \<lparr>res_status = 201, res_success = True,
        res_message = Some ''Task created successfully'', res_count = None,
        res_data = Some (OneTask \<lparr>task_id = 12, title = replicate 100 CHR ''a'',
                                 description = None, status = ''pending'',
                                 priority = ''medium'', dueDate = None, user = 1,
                                 createdAt = 5000, updatedAt = 5000\<rparr>),
        res_errors = None, res_error = None\<rparr>"
    by (simp add: post_task_def validators_def chain_def Let_def trim_padded tt
      isLength_def isIn_def Task_create_def validate_def statuses_def priorities_def
      or_default_def db0_def alice_def milk_def report_def reply_def padded_body_def)
  then show ?thesis by (simp add: padded_body_def length_padded)
qed

text \<open>
  C8, amended. The lengths are those of the trimmed values. Whenever the body of
  \<^verbatim>\<open>POST /tasks\<close> breaks at least one of the four rules (trimmed title of 3 to 100
  characters, trimmed description of at most 500, status and priority in their
  enumerations), the answer is 400 \<^verbatim>\<open>Validation failed\<close>, nothing is stored, and the
  \<^verbatim>\<open>errors\<close> array names every field whose rule is broken, each once, in the order title,
  description, status, priority, and no other field.
\<close>

theorem post_task_reports_every_violation:
  "let ttl = trim (case body_title b of None \<Rightarrow> [] | Some s \<Rightarrow> s);
       bad_title = (length ttl < 3 \<or> 100 < length ttl);
       bad_description =
         (case body_description b of None \<Rightarrow> False | Some s \<Rightarrow> 500 < length (trim s));
       bad_status =
         (case body_status b of
            None \<Rightarrow> False
          | Some s \<Rightarrow> s \<notin> set [''pending'', ''in-progress'', ''completed'']);
       bad_priority =
         (case body_priority b of
            None \<Rightarrow> False
          | Some s \<Rightarrow> s \<notin> set [''low'', ''medium'', ''high''])
   in bad_title \<or> bad_description \<or> bad_status \<or> bad_priority \<longrightarrow>
      (\<exists>es. post_task parse d u new_id now b =
               (\<lparr>res_status = 400, res_success = False, res_message = Some ''Validation failed'',
                 res_count = None, res_data = None, res_errors = Some es, res_error = None\<rparr>, d)
          \<and> map param es =
              (if bad_title then [''title''] else [])
              @ (if bad_description then [''description''] else [])
              @ (if bad_status then [''status''] else [])
              @ (if bad_priority then [''priority''] else []))"
proof -
  define es where "es = fst (validators False b)"
  have params: "map param es =
      (if length (trim (case body_title b of None \<Rightarrow> [] | Some s \<Rightarrow> s)) < 3
          \<or> 100 < length (trim (case body_title b of None \<Rightarrow> [] | Some s \<Rightarrow> s))
       then [''title''] else [])
      @ (if (case body_description b of None \<Rightarrow> False | Some s \<Rightarrow> 500 < length (trim s))
         then [''description''] else [])
      @ (if (case body_status b of
               None \<Rightarrow> False
             | Some s \<Rightarrow> s \<notin> set [''pending'', ''in-progress'', ''completed''])
         then [''status''] else [])
      @ (if (case body_priority b of
               None \<Rightarrow> False
             | Some s \<Rightarrow> s \<notin> set [''low'', ''medium'', ''high''])
         then [''priority''] else [])"
    unfolding es_def validators_fst map_append
    by (simp only: title_chain_params description_chain_params enum_chain_params)
  have resp: "es \<noteq> [] \<Longrightarrow> post_task parse d u new_id now b =
               (\<lparr>res_status = 400, res_success = False, res_message = Some ''Validation failed'',
                 res_count = None, res_data = None, res_errors = Some es, res_error = None\<rparr>, d)"
    by (simp add: post_task_def es_def split_beta reply_def)
  have nonempty: "map param es \<noteq> [] \<Longrightarrow> es \<noteq> []" by auto
  show ?thesis
    unfolding Let_def
  proof (intro impI exI [of _ es] conjI)
    assume bad: "(length (trim (case body_title b of None \<Rightarrow> [] | Some s \<Rightarrow> s)) < 3
          \<or> 100 < length (trim (case body_title b of None \<Rightarrow> [] | Some s \<Rightarrow> s)))
       \<or> (case body_description b of None \<Rightarrow> False | Some s \<Rightarrow> 500 < length (trim s))
       \<or> (case body_status b of
               None \<Rightarrow> False
             | Some s \<Rightarrow> s \<notin> set [''pending'', ''in-progress'', ''completed''])
       \<or> (case body_priority b of
               None \<Rightarrow> False
             | Some s \<Rightarrow> s \<notin> set [''low'', ''medium'', ''high''])"
    have "map param es \<noteq> []"
      unfolding params using bad by (simp only: append_is_Nil_conv split: if_splits) blast
    then show "post_task parse d u new_id now b =
               (\<lparr>res_status = 400, res_success = False, res_message = Some ''Validation failed'',
                 res_count = None, res_data = None, res_errors = Some es, res_error = None\<rparr>, d)"
      using resp nonempty by blast
  next
    show "map param es =
      (if length (trim (case body_title b of None \<Rightarrow> [] | Some s \<Rightarrow> s)) < 3
          \<or> 100 < length (trim (case body_title b of None \<Rightarrow> [] | Some s \<Rightarrow> s))
       then [''title''] else [])
      @ (if (case body_description b of None \<Rightarrow> False | Some s \<Rightarrow> 500 < length (trim s))
         then [''description''] else [])
      @ (if (case body_status b of
               None \<Rightarrow> False
             | Some s \<Rightarrow> s \<notin> set [''pending'', ''in-progress'', ''completed''])
         then [''status''] else [])
      @ (if (case body_priority b of
               None \<Rightarrow> False
             | Some s \<Rightarrow> s \<notin> set [''low'', ''medium'', ''high''])
         then [''priority''] else [])"
      by (rule params)
  qed
qed

text \<open>A title of two characters together with an unknown status: both fields are listed.\<close>

theorem post_task_reports_every_violation_witness:
  "res_status (fst (post_task parse0 db0 alice 12 5000 bad_body)) = 400
   \<and> map_option (map param) (res_errors (fst (post_task parse0 db0 alice 12 5000 bad_body)))
       = Some [''title'', ''status'']
   \<and> snd (post_task parse0 db0 alice 12 5000 bad_body) = db0"
  using post_task_reports_every_violation [of bad_body parse0 db0 alice 12 5000]
  by (auto simp add: bad_body_def Let_def trim_def isWhitespace_def)

subsection \<open>Create, then read\<close>

lemma spaced_created:
  "post_task parse0 db0 alice 12 5000 spaced_body =
     (\<lparr>res_status = 201, res_success = True, res_message = Some ''Task created successfully'',
       res_count = None,
       res_data = Some (OneTask \<lparr>task_id = 12, title = ''Buy milk'', description = None,
                                status = ''pending'', priority = ''medium'', dueDate = None,
                                user = 1, createdAt = 5000, updatedAt = 5000\<rparr>),
       res_errors = None, res_error = None\<rparr>,
      \<lparr>users = [alice, bob],
       tasks = [milk, report, \<lparr>task_id = 12, title = ''Buy milk'', description = None,
                                status = ''pending'', priority = ''medium'', dueDate = None,
                                user = 1, createdAt = 5000, updatedAt = 5000\<rparr>],
       failure = None\<rparr>)"
  by (simp add: post_task_def validators_def chain_def Let_def trim_def isWhitespace_def
      isLength_def isIn_def Task_create_def validate_def statuses_def priorities_def
      or_default_def db0_def alice_def milk_def report_def reply_def spaced_body_def)

text \<open>
  C6, as stated, fails: a title is stored without its surrounding white space, so the task
  read back differs from the input in a field the client supplied. The title
  \<^verbatim>\<open>"  Buy milk"\<close> passes validation and comes back as \<^verbatim>\<open>"Buy milk"\<close>.
\<close>

theorem create_get_changes_title:
  "body_title spaced_body = Some ''  Buy milk''
   \<and> res_status (fst (post_task parse0 db0 alice 12 5000 spaced_body)) = 201
   \<and> get_task castObjectId (snd (post_task parse0 db0 alice 12 5000 spaced_body)) alice
        ''00000000000000000000000c'' =
       \<lparr>res_status = 200, res_success = True, res_message = None, res_count = None,
        res_data = Some (OneTask \<lparr>task_id = 12, title = ''Buy milk'', description = None,
                                 status = ''pending'', priority = ''medium'', dueDate = None,
                                 user = 1, createdAt = 5000, updatedAt = 5000\<rparr>),
        res_errors = None, res_error = None\<rparr>
   \<and> ''Buy milk'' \<noteq> ''  Buy milk''"
  unfolding spaced_created fst_conv snd_conv
  by (simp add: get_task_def Task_findOne_def cast_0c reply_def alice_def
      milk_def report_def spaced_body_def)

text \<open>
  C6, amended. Validity is measured after trimming: the input is valid when its trimmed
  title has 3 to 100 characters, its trimmed description, when given, has at most 500, its
  status and priority, when given, are in their enumerations, and its due date, when given,
  is a value that the schema casts to a date (\<open>castDate\<close> records no error). For such an
  input, a fresh identifier and a database that answers, \<^verbatim>\<open>POST /tasks\<close> answers 201 with a
  task and \<^verbatim>\<open>GET /tasks/:id\<close> by the same user returns that same task. Its title and
  description are the supplied ones with the surrounding white space trimmed, its status
  and priority are the supplied ones, its due date is the date the supplied value casts to
  (none when no value was supplied), an omitted status is \<^verbatim>\<open>pending\<close>, an omitted priority is
  \<^verbatim>\<open>medium\<close>, and its owner is the caller.
\<close>

theorem post_then_get_roundtrip:
  assumes "failure d = None" and "new_id \<notin> set (map task_id (tasks d))"
    and "cast ident = Some new_id"
    and "body_title b = Some ttl" and "3 \<le> length (trim ttl)" and "length (trim ttl) \<le> 100"
    and "case body_description b of None \<Rightarrow> True | Some s \<Rightarrow> length (trim s) \<le> 500"
    and "case body_status b of
           None \<Rightarrow> True | Some s \<Rightarrow> s \<in> set [''pending'', ''in-progress'', ''completed'']"
    and "case body_priority b of
           None \<Rightarrow> True | Some s \<Rightarrow> s \<in> set [''low'', ''medium'', ''high'']"
    and "case body_dueDate b of None \<Rightarrow> due = None | Some v \<Rightarrow> castDate parse v = ([], due)"
  shows "\<exists>t d'.
           post_task parse d u new_id now b =
             (\<lparr>res_status = 201, res_success = True,
               res_message = Some ''Task created successfully'', res_count = None,
               res_data = Some (OneTask t), res_errors = None, res_error = None\<rparr>, d')
         \<and> get_task cast d' u ident =
             \<lparr>res_status = 200, res_success = True, res_message = None, res_count = None,
              res_data = Some (OneTask t), res_errors = None, res_error = None\<rparr>
         \<and> title t = trim ttl
         \<and> description t = map_option trim (body_description b)
         \<and> status t = (case body_status b of None \<Rightarrow> ''pending'' | Some s \<Rightarrow> s)
         \<and> priority t = (case body_priority b of None \<Rightarrow> ''medium'' | Some s \<Rightarrow> s)
         \<and> dueDate t = due
         \<and> user t = user_id u"
proof -
  define st where "st = or_default (body_status b) ''pending''"
  define pr where "pr = or_default (body_priority b) ''medium''"
  define t where
    "t = \<lparr>task_id = new_id, title = trim ttl, description = map_option trim (body_description b),
          status = st, priority = pr, dueDate = due, user = user_id u,
          createdAt = now, updatedAt = now\<rparr>"
  define d' where "d' = d\<lparr>tasks := tasks d @ [t]\<rparr>"
  have s8: "case body_status b of None \<Rightarrow> True | Some s \<Rightarrow> s \<in> set statuses"
    unfolding statuses_def by (rule assms(8))
  have s9: "case body_priority b of None \<Rightarrow> True | Some s \<Rightarrow> s \<in> set priorities"
    unfolding priorities_def by (rule assms(9))
  have st: "st \<in> set statuses" "st = (case body_status b of None \<Rightarrow> ''pending'' | Some s \<Rightarrow> s)"
    unfolding st_def by (rule or_default_enum [OF s8]; simp add: statuses_def)+
  have pr: "pr \<in> set priorities" "pr = (case body_priority b of None \<Rightarrow> ''medium'' | Some s \<Rightarrow> s)"
    unfolding pr_def by (rule or_default_enum [OF s9]; simp add: priorities_def)+
  have errors: "fst (validators False b) = []"
    by (rule valid_body_no_errors [OF assms(4-7) s8 s9])
  have dsc: "case map_option trim (body_description b) of None \<Rightarrow> True | Some s \<Rightarrow> length s \<le> 500"
    using assms(7) by (cases "body_description b") simp_all
  have valid: "validate t = []"
    unfolding validate_ok using assms(5,6) st(1) pr(1) dsc by (simp add: t_def)
  have doc: "t = \<lparr>task_id = new_id,
                  title = trim (case body_title (snd (validators False b)) of None \<Rightarrow> [] | Some s \<Rightarrow> s),
                  description = map_option trim (body_description (snd (validators False b))),
                  status = st, priority = pr,
                  dueDate = due, user = user_id u,
                  createdAt = now, updatedAt = now\<rparr>"
    by (simp add: t_def sanitized_body assms(4) trim_trim map_option_trim_trim)
  have cast: "(case body_dueDate (snd (validators False b)) of
                 None \<Rightarrow> ([], None) | Some v \<Rightarrow> castDate parse v) = ([], due)"
    using assms(10) by (cases "body_dueDate b") (simp_all add: sanitized_body)
  have create: "Task_create parse d new_id now (body_title (snd (validators False b)))
                  (body_description (snd (validators False b))) st pr
                  (body_dueDate (snd (validators False b))) (user_id u) = Inr (t, d')"
    unfolding d'_def by (rule Task_create_ok [OF assms(1,2) cast doc valid])
  have post: "post_task parse d u new_id now b =
             (\<lparr>res_status = 201, res_success = True,
               res_message = Some ''Task created successfully'', res_count = None,
               res_data = Some (OneTask t), res_errors = None, res_error = None\<rparr>, d')"
    using errors create
    by (simp add: post_task_def split_beta sanitized_body st_def pr_def reply_def)
  have "\<forall>y \<in> set (tasks d). \<not> (task_id y = new_id \<and> user y = user_id u)"
    using assms(2) by auto
  then have "find (\<lambda>x. task_id x = new_id \<and> user x = user_id u) (tasks d @ [t]) = Some t"
    by (rule find_snoc) (simp add: t_def)
  then have get: "get_task cast d' u ident =
             \<lparr>res_status = 200, res_success = True, res_message = None, res_count = None,
              res_data = Some (OneTask t), res_errors = None, res_error = None\<rparr>"
    using assms(1,3) by (simp add: get_task_def Task_findOne_def d'_def reply_def)
  have fields: "title t = trim ttl" "description t = map_option trim (body_description b)"
    "dueDate t = due" "user t = user_id u" "status t = st" "priority t = pr"
    by (simp_all add: t_def)
  show ?thesis
    using post get fields st(2) pr(2) by blast
qed

theorem post_then_get_roundtrip_witness:
  "failure db0 = None \<and> 12 \<notin> set (map task_id (tasks db0))
   \<and> castObjectId ''00000000000000000000000c'' = Some 12
   \<and> body_title dated_body = Some ''  Buy milk''
   \<and> trim ''  Buy milk'' = ''Buy milk''
   \<and> castDate parse0 (DateString ''1970-01-02'') = ([], Some 86400000)
   \<and> (\<exists>t. fst (post_task parse0 db0 alice 12 5000 dated_body) =
             \<lparr>res_status = 201, res_success = True,
              res_message = Some ''Task created successfully'', res_count = None,
              res_data = Some (OneTask t), res_errors = None, res_error = None\<rparr>
          \<and> get_task castObjectId (snd (post_task parse0 db0 alice 12 5000 dated_body)) alice
               ''00000000000000000000000c'' =
             \<lparr>res_status = 200, res_success = True, res_message = None, res_count = None,
              res_data = Some (OneTask t), res_errors = None, res_error = None\<rparr>
          \<and> title t = ''Buy milk'' \<and> status t = ''pending'' \<and> priority t = ''medium''
          \<and> dueDate t = Some 86400000 \<and> user t = user_id alice)"
proof -
  have h2: "12 \<notin> set (map task_id (tasks db0))"
    by (simp add: db0_def milk_def report_def)
  have h4: "body_title dated_body = Some ''  Buy milk''"
    by (simp add: dated_body_def)
  have tr: "trim ''  Buy milk'' = ''Buy milk''"
    by (simp add: trim_def isWhitespace_def)
  have h5: "3 \<le> length (trim ''  Buy milk'')" and h6: "length (trim ''  Buy milk'') \<le> 100"
    by (simp_all add: tr)
  have h7: "case body_description dated_body of None \<Rightarrow> True | Some s \<Rightarrow> length (trim s) \<le> 500"
    by (simp add: dated_body_def)
  have h8: "case body_status dated_body of
           None \<Rightarrow> True | Some s \<Rightarrow> s \<in> set [''pending'', ''in-progress'', ''completed'']"
    by (simp add: dated_body_def)
  have h9: "case body_priority dated_body of
           None \<Rightarrow> True | Some s \<Rightarrow> s \<in> set [''low'', ''medium'', ''high'']"
    by (simp add: dated_body_def)
  have cd: "castDate parse0 (DateString ''1970-01-02'') = ([], Some 86400000)"
    by (simp add: castDate_def parse0_def)
  have h10: "case body_dueDate dated_body of
           None \<Rightarrow> Some 86400000 = None | Some v \<Rightarrow> castDate parse0 v = ([], Some 86400000)"
    by (simp add: dated_body_def cd)
  note T = post_then_get_roundtrip
    [where cast = castObjectId and u = alice and now = 5000,
     OF db0_simps(1) h2 cast_0c h4 h5 h6 h7 h8 h9 h10]
  have body: "body_status dated_body = None" "body_priority dated_body = None"
    by (simp_all add: dated_body_def)
  from T obtain t d' where
    "post_task parse0 db0 alice 12 5000 dated_body =
             (\<lparr>res_status = 201, res_success = True,
               res_message = Some ''Task created successfully'', res_count = None,
               res_data = Some (OneTask t), res_errors = None, res_error = None\<rparr>, d')"
    "get_task castObjectId d' alice ''00000000000000000000000c'' =
             \<lparr>res_status = 200, res_success = True, res_message = None, res_count = None,
              res_data = Some (OneTask t), res_errors = None, res_error = None\<rparr>"
    "title t = trim ''  Buy milk''" "status t = ''pending''" "priority t = ''medium''"
    "dueDate t = Some 86400000" "user t = user_id alice"
    unfolding body option.case by blast
  then show ?thesis
    using h2 h4 tr cd db0_simps(1) cast_0c by auto
qed

subsection \<open>Deleting a task\<close>

lemma remove1_no_id:
  assumes "distinct (map k xs)" and "t \<in> set xs"
  shows "\<forall>x \<in> set (remove1 t xs). k x \<noteq> k t"
proof
  fix x assume x: "x \<in> set (remove1 t xs)"
  have dist: "distinct xs" and inj: "inj_on k (set xs)"
    using assms(1) by (simp_all add: distinct_map)
  have "x \<in> set xs" and "x \<noteq> t"
    using x dist by simp_all
  then show "k x \<noteq> k t"
    using inj assms(2) by (auto dest: inj_onD)
qed

text \<open>
  C9. Let the identifier in the path be a well-formed \<^verbatim>\<open>ObjectId\<close>, let the database answer
  and let the identifiers of the collection be pairwise different (the unique index on
  \<^verbatim>\<open>_id\<close>). For a task owned by the caller, \<^verbatim>\<open>DELETE /tasks/:id\<close> answers 200 with the task as
  it was stored and removes it from the collection; afterwards a further delete and a get
  of that identifier, by any user, answer 404 \<^verbatim>\<open>Task not found\<close> and change nothing.
\<close>

theorem delete_task_once:
  assumes "cast ident = Some i" and "failure d = None" and "distinct (map task_id (tasks d))"
    and "t \<in> set (tasks d)" and "task_id t = i" and "user t = user_id u"
  shows "\<exists>d'. delete_task cast d u ident =
                 (\<lparr>res_status = 200, res_success = True,
                   res_message = Some ''Task deleted successfully'', res_count = None,
                   res_data = Some (OneTask t), res_errors = None, res_error = None\<rparr>, d')
              \<and> tasks d' = remove1 t (tasks d)
              \<and> (\<forall>v ident'. cast ident' = Some i \<longrightarrow>
                    delete_task cast d' v ident' =
                      (\<lparr>res_status = 404, res_success = False,
                        res_message = Some ''Task not found'', res_count = None,
                        res_data = None, res_errors = None, res_error = None\<rparr>, d')
                  \<and> get_task cast d' v ident' =
                      \<lparr>res_status = 404, res_success = False,
                       res_message = Some ''Task not found'', res_count = None,
                       res_data = None, res_errors = None, res_error = None\<rparr>)"
proof -
  define d' where "d' = d\<lparr>tasks := remove1 t (tasks d)\<rparr>"
  have found: "find (\<lambda>x. task_id x = i \<and> user x = user_id u) (tasks d) = Some t"
    by (rule find_unique [where k = task_id]) (use assms(3-6) in auto)
  have first: "delete_task cast d u ident =
                 (\<lparr>res_status = 200, res_success = True,
                   res_message = Some ''Task deleted successfully'', res_count = None,
                   res_data = Some (OneTask t), res_errors = None, res_error = None\<rparr>, d')"
    using assms(1,2) found
    by (simp add: delete_task_def Task_findOneAndDelete_def d'_def reply_def)
  have gone: "\<forall>x \<in> set (tasks d'). task_id x \<noteq> i"
    using remove1_no_id [OF assms(3,4)] assms(5) by (simp add: d'_def)
  have none: "find (\<lambda>x. task_id x = i \<and> user x = user_id v) (tasks d') = None" for v
    using gone by (simp add: find_None_iff_all)
  have fail: "failure d' = None"
    using assms(2) by (simp add: d'_def)
  have later: "delete_task cast d' v ident' =
                      (\<lparr>res_status = 404, res_success = False,
                        res_message = Some ''Task not found'', res_count = None,
                        res_data = None, res_errors = None, res_error = None\<rparr>, d')
                  \<and> get_task cast d' v ident' =
                      \<lparr>res_status = 404, res_success = False,
                       res_message = Some ''Task not found'', res_count = None,
                       res_data = None, res_errors = None, res_error = None\<rparr>"
    if "cast ident' = Some i" for v ident'
    using that fail none [of v]
    by (simp add: delete_task_def Task_findOneAndDelete_def get_task_def Task_findOne_def reply_def)
  have "tasks d' = remove1 t (tasks d)" by (simp add: d'_def)
  then show ?thesis using first later by blast
qed

text \<open>Alice deletes her task; her second delete and Bob's get of the identifier give 404.\<close>

theorem delete_task_once_witness:
  "castObjectId ''00000000000000000000000a'' = Some 10 \<and> failure db0 = None
   \<and> distinct (map task_id (tasks db0)) \<and> milk \<in> set (tasks db0)
   \<and> task_id milk = 10 \<and> user milk = user_id alice
   \<and> fst (delete_task castObjectId db0 alice ''00000000000000000000000a'') =
        \<lparr>res_status = 200, res_success = True,
         res_message = Some ''Task deleted successfully'', res_count = None,
         res_data = Some (OneTask milk), res_errors = None, res_error = None\<rparr>
   \<and> tasks (snd (delete_task castObjectId db0 alice ''00000000000000000000000a'')) = [report]
   \<and> res_status (fst (delete_task castObjectId
        (snd (delete_task castObjectId db0 alice ''00000000000000000000000a''))
        alice ''00000000000000000000000a'')) = 404
   \<and> res_status (get_task castObjectId
        (snd (delete_task castObjectId db0 alice ''00000000000000000000000a''))
        bob ''00000000000000000000000a'') = 404"
proof -
  have h4: "milk \<in> set (tasks db0)" by (simp add: db0_def)
  have h5: "task_id milk = 10" by (simp add: milk_def)
  have h6: "user milk = user_id alice" by (simp add: milk_def alice_def)
  note T = delete_task_once
    [where cast = castObjectId and u = alice, OF cast_0a db0_simps(1) db0_distinct h4 h5 h6]
  then obtain d' where d':
    "delete_task castObjectId db0 alice ''00000000000000000000000a'' =
       (\<lparr>res_status = 200, res_success = True,
         res_message = Some ''Task deleted successfully'', res_count = None,
         res_data = Some (OneTask milk), res_errors = None, res_error = None\<rparr>, d')"
    "tasks d' = remove1 milk (tasks db0)"
    "\<forall>v ident'. castObjectId ident' = Some 10 \<longrightarrow>
        delete_task castObjectId d' v ident' =
          (\<lparr>res_status = 404, res_success = False,
            res_message = Some ''Task not found'', res_count = None,
            res_data = None, res_errors = None, res_error = None\<rparr>, d')
      \<and> get_task castObjectId d' v ident' =
          \<lparr>res_status = 404, res_success = False,
           res_message = Some ''Task not found'', res_count = None,
           res_data = None, res_errors = None, res_error = None\<rparr>"
    by blast
  have "tasks d' = [report]" using d'(2) by (simp add: db0_def)
  moreover have "res_status (fst (delete_task castObjectId d' alice ''00000000000000000000000a'')) = 404"
    using d'(3) cast_0a by simp
  moreover have "res_status (get_task castObjectId d' bob ''00000000000000000000000a'') = 404"
    using d'(3) cast_0a by simp
  ultimately show ?thesis
    using d'(1) cast_0a db0_simps(1) db0_distinct h4 h5 h6 by simp
qed

subsection \<open>Updating a task\<close>

lemma valid_partial_no_errors:
  assumes "case body_title b of None \<Rightarrow> True | Some s \<Rightarrow> 3 \<le> length (trim s) \<and> length (trim s) \<le> 100"
    and "case body_description b of None \<Rightarrow> True | Some s \<Rightarrow> length (trim s) \<le> 500"
    and "case body_status b of None \<Rightarrow> True | Some s \<Rightarrow> s \<in> set statuses"
    and "case body_priority b of None \<Rightarrow> True | Some s \<Rightarrow> s \<in> set priorities"
  shows "fst (validators True b) = []"
proof (cases "body_title b")
  case None
  have 1: "fst (chain ''title'' True trim (isLength 3 (Some 100)) m (body_title b)) = []" for m
    using None by (simp add: chain_fst)
  have 2: "fst (chain ''description'' True trim (isLength 0 (Some 500)) m (body_description b)) = []" for m
    using assms(2) by (cases "body_description b") (simp_all add: chain_fst isLength_def)
  have 3: "fst (chain ''status'' True (\<lambda>x. x) (isIn [''pending'', ''in-progress'', ''completed'']) m
             (body_status b)) = []" for m
    using assms(3) by (cases "body_status b") (simp_all add: chain_fst isIn_def statuses_def)
  have 4: "fst (chain ''priority'' True (\<lambda>x. x) (isIn [''low'', ''medium'', ''high'']) m
             (body_priority b)) = []" for m
    using assms(4) by (cases "body_priority b") (simp_all add: chain_fst isIn_def priorities_def)
  show ?thesis
    by (simp only: validators_fst 1 2 3 4 append_Nil)
next
  case (Some ttl)
  then have "3 \<le> length (trim ttl)" "length (trim ttl) \<le> 100"
    using assms(1) by simp_all
  then show ?thesis
    by (rule valid_body_no_errors [OF Some _ _ assms(2-4)])
qed

lemma assign_fields:
  "title (fst (assign parse b t)) =
     (case body_title b of None \<Rightarrow> title t | Some s \<Rightarrow> if s = [] then title t else trim s)"
  "description (fst (assign parse b t)) =
     (case body_description b of None \<Rightarrow> description t | Some s \<Rightarrow> Some (trim s))"
  "status (fst (assign parse b t)) =
     (case body_status b of None \<Rightarrow> status t | Some s \<Rightarrow> if s = [] then status t else s)"
  "priority (fst (assign parse b t)) =
     (case body_priority b of None \<Rightarrow> priority t | Some s \<Rightarrow> if s = [] then priority t else s)"
  "task_id (fst (assign parse b t)) = task_id t"
  "user (fst (assign parse b t)) = user t"
  "createdAt (fst (assign parse b t)) = createdAt t"
  "updatedAt (fst (assign parse b t)) = updatedAt t"
  by (simp_all add: assign_def Let_def split: option.splits prod.splits list.splits)

lemma assign_dueDate:
  assumes "case body_dueDate b of None \<Rightarrow> due = dueDate t | Some v \<Rightarrow> castDate parse v = ([], due)"
  shows "dueDate (fst (assign parse b t)) = due" and "snd (assign parse b t) = []"
  using assms
  by (simp_all add: assign_def Let_def split: option.splits prod.splits list.splits)

lemma map_replace_by_key:
  assumes "distinct (map k xs)" and "t \<in> set xs"
  shows "map (\<lambda>x. if k x = k t then y else x) xs = map (\<lambda>x. if x = t then y else x) xs"
proof (rule map_cong [OF refl])
  fix x assume "x \<in> set xs"
  have "inj_on k (set xs)" using assms(1) by (simp add: distinct_map)
  then have "k x = k t \<longleftrightarrow> x = t"
    using \<open>x \<in> set xs\<close> assms(2) by (auto dest: inj_onD)
  then show "(if k x = k t then y else x) = (if x = t then y else x)" by simp
qed

text \<open>
  C4, as stated, fails: validity is measured after trimming. A title of two letters between
  blanks has six characters, which is within 3 to 100, yet \<^verbatim>\<open>PUT /tasks/:id\<close> with it answers
  400 and changes nothing.
\<close>

theorem padded_short_title_rejected:
  "milk \<in> set (tasks db0) \<and> user milk = user_id alice
   \<and> castObjectId ''00000000000000000000000a'' = Some (task_id milk)
   \<and> body_title short_body = Some ''  ab  '' \<and> length ''  ab  '' = 6
   \<and> put_task castObjectId parse0 db0 alice 7000 ''00000000000000000000000a'' short_body =
       (\<lparr>res_status = 400, res_success = False, res_message = Some ''Validation failed'',
         res_count = None, res_data = None,
         res_errors = Some [\<lparr>param = ''title'',
                              msg = ''Title must be between 3 and 100 characters''\<rparr>],
         res_error = None\<rparr>, db0)"
  by (simp add: put_task_def validators_def chain_def Let_def trim_def isWhitespace_def
      isLength_def isIn_def reply_def short_body_def cast_0a milk_def alice_def db0_simps)

text \<open>
  C4, amended. Let the caller own the task with the identifier of the path, let the stored
  task satisfy the schema, and let every field present in the body be valid after trimming
  and casting: a trimmed title of 3 to 100 characters, a trimmed description of at most
  500, status and priority in their enumerations, a due date that the schema casts to a
  date (\<open>castDate\<close> records no error). Then \<^verbatim>\<open>PUT /tasks/:id\<close> answers 200 with the updated
  task and stores it in place of the old one, leaving the other tasks alone. Each of title,
  description, status and priority present in the body has the supplied value (title and
  description trimmed), a due date present in the body is the date the supplied value
  casts to; each field absent from the body keeps its old value; the identifier, the owner
  and the creation time are unchanged; \<^verbatim>\<open>updatedAt\<close> is the time of the request.
\<close>

theorem put_task_partial_update:
  assumes "cast ident = Some i" and "failure d = None" and "distinct (map task_id (tasks d))"
    and "t \<in> set (tasks d)" and "task_id t = i" and "user t = user_id u"
    and "validate t = []"
    and "case body_title b of
           None \<Rightarrow> True | Some s \<Rightarrow> 3 \<le> length (trim s) \<and> length (trim s) \<le> 100"
    and "case body_description b of None \<Rightarrow> True | Some s \<Rightarrow> length (trim s) \<le> 500"
    and "case body_status b of
           None \<Rightarrow> True | Some s \<Rightarrow> s \<in> set [''pending'', ''in-progress'', ''completed'']"
    and "case body_priority b of
           None \<Rightarrow> True | Some s \<Rightarrow> s \<in> set [''low'', ''medium'', ''high'']"
    and "case body_dueDate b of
           None \<Rightarrow> due = dueDate t | Some v \<Rightarrow> castDate parse v = ([], due)"
  shows "\<exists>t' d'.
           put_task cast parse d u now ident b =
             (\<lparr>res_status = 200, res_success = True,
               res_message = Some ''Task updated successfully'', res_count = None,
               res_data = Some (OneTask t'), res_errors = None, res_error = None\<rparr>, d')
         \<and> tasks d' = map (\<lambda>x. if x = t then t' else x) (tasks d)
         \<and> title t' = (case body_title b of None \<Rightarrow> title t | Some s \<Rightarrow> trim s)
         \<and> description t' =
             (case body_description b of None \<Rightarrow> description t | Some s \<Rightarrow> Some (trim s))
         \<and> status t' = (case body_status b of None \<Rightarrow> status t | Some s \<Rightarrow> s)
         \<and> priority t' = (case body_priority b of None \<Rightarrow> priority t | Some s \<Rightarrow> s)
         \<and> dueDate t' = due
         \<and> task_id t' = task_id t \<and> user t' = user t \<and> createdAt t' = createdAt t
         \<and> updatedAt t' = now"
proof -
  define b' where "b' = snd (validators True b)"
  define a where "a = fst (assign parse b' t)"
  define t' where "t' = a\<lparr>updatedAt := now\<rparr>"
  define d' where "d' = d\<lparr>tasks := map (\<lambda>x. if x = t then t' else x) (tasks d)\<rparr>"
  have s10: "case body_status b of None \<Rightarrow> True | Some s \<Rightarrow> s \<in> set statuses"
    unfolding statuses_def by (rule assms(10))
  have s11: "case body_priority b of None \<Rightarrow> True | Some s \<Rightarrow> s \<in> set priorities"
    unfolding priorities_def by (rule assms(11))
  have errors: "fst (validators True b) = []"
    by (rule valid_partial_no_errors [OF assms(8,9) s10 s11])
  have old: "3 \<le> length (title t)" "length (title t) \<le> 100"
    "case description t of None \<Rightarrow> True | Some s \<Rightarrow> length s \<le> 500"
    "status t \<in> set statuses" "priority t \<in> set priorities"
    using assms(7) unfolding validate_ok by simp_all
  have ttl: "title a = (case body_title b of None \<Rightarrow> title t | Some s \<Rightarrow> trim s)"
    using assms(8)
    by (cases "body_title b") (auto simp add: a_def b'_def assign_fields sanitized_body trim_trim)
  have dsc: "description a =
      (case body_description b of None \<Rightarrow> description t | Some s \<Rightarrow> Some (trim s))"
    by (cases "body_description b")
      (simp_all add: a_def b'_def assign_fields sanitized_body trim_trim)
  have sta: "status a = (case body_status b of None \<Rightarrow> status t | Some s \<Rightarrow> s)"
    using assms(10)
    by (cases "body_status b") (auto simp add: a_def b'_def assign_fields sanitized_body)
  have pri: "priority a = (case body_priority b of None \<Rightarrow> priority t | Some s \<Rightarrow> s)"
    using assms(11)
    by (cases "body_priority b") (auto simp add: a_def b'_def assign_fields sanitized_body)
  have due': "case body_dueDate b' of
                None \<Rightarrow> due = dueDate t | Some v \<Rightarrow> castDate parse v = ([], due)"
    using assms(12) by (simp add: b'_def sanitized_body)
  have due: "dueDate a = due" and casts: "snd (assign parse b' t) = []"
    unfolding a_def by (rule assign_dueDate [OF due'])+
  have pair: "assign parse b' t = (a, [])"
    using casts by (simp add: a_def prod_eq_iff)
  have rest: "task_id a = task_id t" "user a = user t" "createdAt a = createdAt t"
    by (simp_all add: a_def assign_fields)
  have v1: "3 \<le> length (title a) \<and> length (title a) \<le> 100"
    unfolding ttl using assms(8) old(1,2) by (cases "body_title b") simp_all
  have v2: "case description a of None \<Rightarrow> True | Some s \<Rightarrow> length s \<le> 500"
    unfolding dsc using assms(9) old(3) by (cases "body_description b") simp_all
  have v3: "status a \<in> set statuses"
    unfolding sta using s10 old(4) by (cases "body_status b") simp_all
  have v4: "priority a \<in> set priorities"
    unfolding pri using s11 old(5) by (cases "body_priority b") simp_all
  have valid: "validate a = []"
    unfolding validate_ok using v1 v2 v3 v4 by simp
  have found: "Task_findOne cast d ident (user_id u) = Inr (Some t)"
  proof -
    have "find (\<lambda>x. task_id x = i \<and> user x = user_id u) (tasks d) = Some t"
      by (rule find_unique [where k = task_id]) (use assms(3-6) in auto)
    then show ?thesis using assms(1,2) by (simp add: Task_findOne_def)
  qed
  have key: "task_id t' = task_id t"
    using rest(1) by (simp add: t'_def)
  have "task_save d now (a, []) =
          Inr (t', d\<lparr>tasks := map (\<lambda>x. if task_id x = task_id t' then t' else x) (tasks d)\<rparr>)"
    using valid assms(2) by (simp add: task_save_def t'_def Let_def)
  then have save: "task_save d now (a, []) = Inr (t', d')"
    unfolding d'_def key by (simp only: map_replace_by_key [OF assms(3,4)])
  have put: "put_task cast parse d u now ident b =
             (\<lparr>res_status = 200, res_success = True,
               res_message = Some ''Task updated successfully'', res_count = None,
               res_data = Some (OneTask t'), res_errors = None, res_error = None\<rparr>, d')"
    using errors found save pair
    by (simp add: put_task_def split_beta reply_def b'_def)
  have new: "title t' = title a" "description t' = description a" "status t' = status a"
    "priority t' = priority a" "dueDate t' = dueDate a" "task_id t' = task_id a"
    "user t' = user a" "createdAt t' = createdAt a" "updatedAt t' = now"
    by (simp_all add: t'_def)
  have stored: "tasks d' = map (\<lambda>x. if x = t then t' else x) (tasks d)"
    by (simp add: d'_def)
  show ?thesis
    apply (rule exI [of _ t'])
    apply (rule exI [of _ d'])
    apply (simp only: put stored new ttl dsc sta pri due rest)
    done
qed

text \<open>
  Alice marks her task completed and gives it a due date: the status, the due date and
  \<^verbatim>\<open>updatedAt\<close> change, nothing else.
\<close>

theorem put_task_partial_update_witness:
  "castDate parse0 (DateString ''1970-01-02'') = ([], Some 86400000)
   \<and> fst (put_task castObjectId parse0 db0 alice 7000 ''00000000000000000000000a''
          \<lparr>body_title = None, body_description = None, body_status = Some ''completed'',
           body_priority = None, body_dueDate = Some (DateString ''1970-01-02''),
           body_user = None\<rparr>) =
     \<lparr>res_status = 200, res_success = True,
      res_message = Some ''Task updated successfully'', res_count = None,
      res_data = Some (OneTask (milk\<lparr>status := ''completed'', dueDate := Some 86400000,
                                     updatedAt := 7000\<rparr>)),
      res_errors = None, res_error = None\<rparr>
   \<and> tasks (snd (put_task castObjectId parse0 db0 alice 7000 ''00000000000000000000000a''
          \<lparr>body_title = None, body_description = None, body_status = Some ''completed'',
           body_priority = None, body_dueDate = Some (DateString ''1970-01-02''),
           body_user = None\<rparr>)) =
     [milk\<lparr>status := ''completed'', dueDate := Some 86400000, updatedAt := 7000\<rparr>, report]"
proof -
  let ?b = "\<lparr>body_title = None, body_description = None, body_status = Some ''completed'',
           body_priority = None, body_dueDate = Some (DateString ''1970-01-02''),
           body_user = None\<rparr>"
  have h4: "milk \<in> set (tasks db0)" by (simp add: db0_def)
  have h5: "task_id milk = 10" by (simp add: milk_def)
  have h6: "user milk = user_id alice" by (simp add: milk_def alice_def)
  have h7: "validate milk = []" by (simp add: validate_def milk_def statuses_def priorities_def)
  have h8: "case body_title ?b of
           None \<Rightarrow> True | Some s \<Rightarrow> 3 \<le> length (trim s) \<and> length (trim s) \<le> 100"
    by simp
  have h9: "case body_description ?b of None \<Rightarrow> True | Some s \<Rightarrow> length (trim s) \<le> 500"
    by simp
  have h10: "case body_status ?b of
           None \<Rightarrow> True | Some s \<Rightarrow> s \<in> set [''pending'', ''in-progress'', ''completed'']"
    by simp
  have h11: "case body_priority ?b of
           None \<Rightarrow> True | Some s \<Rightarrow> s \<in> set [''low'', ''medium'', ''high'']"
    by simp
  have cd: "castDate parse0 (DateString ''1970-01-02'') = ([], Some 86400000)"
    by (simp add: castDate_def parse0_def)
  have h12: "case body_dueDate ?b of
           None \<Rightarrow> Some 86400000 = dueDate milk
         | Some v \<Rightarrow> castDate parse0 v = ([], Some 86400000)"
    by (simp add: cd)
  note T = put_task_partial_update
    [where cast = castObjectId and u = alice and now = 7000,
     OF cast_0a db0_simps(1) db0_distinct h4 h5 h6 h7 h8 h9 h10 h11 h12]
  then obtain t' d' where r:
    "put_task castObjectId parse0 db0 alice 7000 ''00000000000000000000000a'' ?b =
       (\<lparr>res_status = 200, res_success = True,
         res_message = Some ''Task updated successfully'', res_count = None,
         res_data = Some (OneTask t'), res_errors = None, res_error = None\<rparr>, d')"
    "tasks d' = map (\<lambda>x. if x = milk then t' else x) (tasks db0)"
    "title t' = title milk" "description t' = description milk" "status t' = ''completed''"
    "priority t' = priority milk" "dueDate t' = Some 86400000" "task_id t' = task_id milk"
    "user t' = user milk" "createdAt t' = createdAt milk" "updatedAt t' = 7000"
    by auto
  have "t' = milk\<lparr>status := ''completed'', dueDate := Some 86400000, updatedAt := 7000\<rparr>"
    using r(3-11) by simp
  moreover have "milk \<noteq> report" by (simp add: milk_def report_def)
  ultimately show ?thesis
    using r(1,2) cd by (simp add: db0_def)
qed

subsection \<open>Listing the tasks\<close>

lemma mset_sort_by: "mset (sort_by key dir ts) = mset ts"
  by (cases dir) (simp_all add: sort_by_def)

lemma sorted_sort_by_asc: "sorted (map key (sort_by key Ascending ts))"
  by (simp add: sort_by_def)

lemma sorted_sort_by_desc: "sorted (rev (map key (sort_by key Descending ts)))"
  by (simp add: sort_by_def rev_map)

lemma mset_sort_tasks: "mset (sort_tasks opt ts) = mset ts"
proof (cases opt)
  case (Pair f dir)
  then show ?thesis by (cases f) (simp_all add: mset_sort_by)
qed

lemma mset_two:
  assumes "mset xs = {#a, b#}"
  shows "xs = [a, b] \<or> xs = [b, a]"
proof -
  have "size (mset xs) = 2" using assms by simp
  then have "length xs = 2" by simp
  then obtain x y where xs: "xs = [x, y]"
    by (metis (no_types, opaque_lifting) Suc_length_conv length_0_conv numeral_2_eq_2)
  then have "{#x, y#} = {#a, b#}" using assms by simp
  then show ?thesis using xs by (auto simp add: add_eq_conv_ex)
qed

text \<open>
  C7. When the database answers, \<^verbatim>\<open>GET /tasks\<close> answers 200 with a sequence and its length.
  The sequence holds exactly the tasks of the collection (each as often as it is stored)
  that belong to the caller and match the filters, where a filter that is absent or empty
  does not restrict. With \<^verbatim>\<open>sort=oldest\<close> the creation times ascend, with \<^verbatim>\<open>sort=title\<close> the
  titles ascend in the lexicographic order of their characters, with \<^verbatim>\<open>sort=dueDate\<close> the due
  dates ascend (tasks without a due date come first), and with any other or no value of
  \<^verbatim>\<open>sort\<close> the creation times descend.
\<close>

theorem get_tasks_filtered_and_sorted:
  assumes "failure d = None"
  shows "\<exists>ts. get_tasks d u rq =
                \<lparr>res_status = 200, res_success = True, res_message = None,
                 res_count = Some (length ts), res_data = Some (ManyTasks ts),
                 res_errors = None, res_error = None\<rparr>
            \<and> mset ts =
                 mset (filter (\<lambda>t. user t = user_id u
                                  \<and> (case query_status rq of
                                        None \<Rightarrow> True | Some s \<Rightarrow> s = [] \<or> status t = s)
                                  \<and> (case query_priority rq of
                                        None \<Rightarrow> True | Some p \<Rightarrow> p = [] \<or> priority t = p))
                         (tasks d))
            \<and> (if query_sort rq = Some ''oldest'' then sorted (map createdAt ts)
                else if query_sort rq = Some ''title'' then sorted (map title ts)
                else if query_sort rq = Some ''dueDate'' then sorted (map dueDate ts)
                else sorted (rev (map createdAt ts)))"
proof -
  define q where
    "q = \<lparr>q_user = user_id u,
          q_status = (if truthy (query_status rq) then query_status rq else None),
          q_priority = (if truthy (query_priority rq) then query_priority rq else None)\<rparr>"
  define sortOption where
    "sortOption =
       (if query_sort rq = Some ''oldest'' then (CreatedAt, Ascending)
        else if query_sort rq = Some ''title'' then (Title, Ascending)
        else if query_sort rq = Some ''dueDate'' then (DueDate, Ascending)
        else (CreatedAt, Descending))"
  define ts where "ts = sort_tasks sortOption (filter (matches q) (tasks d))"
  have m: "matches q =
       (\<lambda>t. user t = user_id u
             \<and> (case query_status rq of None \<Rightarrow> True | Some s \<Rightarrow> s = [] \<or> status t = s)
             \<and> (case query_priority rq of None \<Rightarrow> True | Some p \<Rightarrow> p = [] \<or> priority t = p))"
    by (rule ext, cases "query_status rq"; cases "query_priority rq")
       (auto simp add: matches_def q_def truthy_def)
  have resp: "get_tasks d u rq =
                \<lparr>res_status = 200, res_success = True, res_message = None,
                 res_count = Some (length ts), res_data = Some (ManyTasks ts),
                 res_errors = None, res_error = None\<rparr>"
    using assms
    by (simp add: get_tasks_def Task_find_def Let_def reply_def ts_def q_def sortOption_def)
  have members: "mset ts = mset (filter (matches q) (tasks d))"
    by (simp add: ts_def mset_sort_tasks)
  have order: "if query_sort rq = Some ''oldest'' then sorted (map createdAt ts)
                else if query_sort rq = Some ''title'' then sorted (map title ts)
                else if query_sort rq = Some ''dueDate'' then sorted (map dueDate ts)
                else sorted (rev (map createdAt ts))"
    by (simp add: ts_def sortOption_def sorted_sort_by_asc sorted_sort_by_desc)
  show ?thesis
    using resp members order unfolding m by blast
qed

text \<open>Alice lists her pending tasks, oldest first.\<close>

theorem get_tasks_filtered_and_sorted_witness:
  "failure db1 = None
   \<and> get_tasks db1 alice
        \<lparr>query_status = Some ''pending'', query_priority = None, query_sort = Some ''oldest''\<rparr> =
       \<lparr>res_status = 200, res_success = True, res_message = None, res_count = Some 2,
        res_data = Some (ManyTasks [call, milk]), res_errors = None, res_error = None\<rparr>"
proof -
  have h: "failure db1 = None" by (simp add: db1_def)
  note T = get_tasks_filtered_and_sorted
    [where u = alice
       and rq = "\<lparr>query_status = Some ''pending'', query_priority = None,
                  query_sort = Some ''oldest''\<rparr>", OF h]
  then obtain ts where ts:
    "get_tasks db1 alice
        \<lparr>query_status = Some ''pending'', query_priority = None, query_sort = Some ''oldest''\<rparr> =
       \<lparr>res_status = 200, res_success = True, res_message = None,
        res_count = Some (length ts), res_data = Some (ManyTasks ts),
        res_errors = None, res_error = None\<rparr>"
    "mset ts = {#milk, call#}"
    "sorted (map createdAt ts)"
    by (auto simp add: db1_def alice_def milk_def report_def call_def)
  have "ts = [milk, call] \<or> ts = [call, milk]"
    by (rule mset_two [OF ts(2)])
  moreover have "\<not> sorted (map createdAt [milk, call])"
    by (simp add: milk_def call_def)
  ultimately have "ts = [call, milk]"
    using ts(3) by auto
  then show ?thesis using ts(1) h by simp
qed

subsection \<open>Issuing and verifying a token\<close>

lemma seconds_le: "a * 1000 \<le> (t::int) \<Longrightarrow> a \<le> t div 1000"
proof -
  assume "a * 1000 \<le> t"
  then have "(a * 1000) div 1000 \<le> t div 1000"
    by (rule zdiv_mono1) simp
  then show ?thesis by simp
qed

lemma floor_seconds: "(t::int) div 1000 * 1000 \<le> t"
proof -
  have "t div 1000 * 1000 + t mod 1000 = t" by (rule div_mult_mod_eq)
  moreover have "0 \<le> t mod 1000" by simp
  ultimately show ?thesis by linarith
qed

lemma seconds_less: "(t::int) < a * 1000 \<Longrightarrow> t div 1000 < a"
proof (rule ccontr)
  assume less: "t < a * 1000" and "\<not> t div 1000 < a"
  then have "a * 1000 \<le> t div 1000 * 1000" by simp
  then have "a * 1000 \<le> t" using floor_seconds [of t] by linarith
  then show False using less by simp
qed

text \<open>
  C5. Let \<^verbatim>\<open>generateToken\<close> issue a token for \<open>u\<close> at the instant \<open>now\<close>, and let the token be a
  compact serialisation of three parts that decodes to what was encoded. Its expiration is
  the second of issuance plus 30 days (2592000 seconds). Verified at the instant of
  issuance, and at any instant before the expiration, the token yields a payload whose
  identifier is \<open>u\<close>; verified at the expiration instant or at any later instant,
  \<^verbatim>\<open>jwt.verify\<close> fails with \<^verbatim>\<open>TokenExpiredError\<close>.
\<close>

theorem token_valid_until_expiry:
  assumes "generateToken enc secret now u = Inr tok"
    and "\<And>j. tok = enc j \<Longrightarrow> dec tok = Some j"
    and "length (split CHR ''.'' tok) = 3"
  shows "(\<forall>t. t < (now div 1000 + 2592000) * 1000 \<longrightarrow>
              (\<exists>p. jwt_verify dec t (Some tok) secret = Inr p \<and> jwt_id p = u
                   \<and> exp p = Some (now div 1000 + 2592000)))
       \<and> jwt_verify dec now (Some tok) secret =
            Inr \<lparr>jwt_id = u, iat = now div 1000, nbf = None,
                 exp = Some (now div 1000 + 2592000)\<rparr>
       \<and> (\<forall>t. (now div 1000 + 2592000) * 1000 \<le> t \<longrightarrow>
              jwt_verify dec t (Some tok) secret =
                Inl \<lparr>err_name = ''TokenExpiredError'', err_message = ''jwt expired''\<rparr>)"
proof -
  obtain k where k: "secret = Some k" "k \<noteq> []"
    using assms(1)
    by (auto simp add: generateToken_def jwt_sign_def split: option.splits if_splits)
  define j where
    "j = \<lparr>payload = \<lparr>jwt_id = u, iat = now div 1000, nbf = None,
                     exp = Some (now div 1000 + 2592000)\<rparr>,
          signing_key = k\<rparr>"
  have tok: "tok = enc j"
    using assms(1) k by (simp add: generateToken_def jwt_sign_def j_def Let_def)
  have dec: "dec tok = Some j"
    by (rule assms(2) [OF tok])
  have ne: "tok \<noteq> []"
    using assms(3) by auto
  have early: "jwt_verify dec t (Some tok) secret = Inr (payload j)"
    if "t < (now div 1000 + 2592000) * 1000" for t
  proof -
    have "t div 1000 < now div 1000 + 2592000"
      by (rule seconds_less [OF that])
    then show ?thesis
      using dec ne assms(3) k by (simp add: jwt_verify_def truthy_def j_def Let_def)
  qed
  have "now div 1000 * 1000 \<le> now"
    by (rule floor_seconds)
  then have "now < (now div 1000 + 2592000) * 1000"
    by simp
  then have fresh: "jwt_verify dec now (Some tok) secret = Inr (payload j)"
    by (rule early)
  have late: "jwt_verify dec t (Some tok) secret =
                Inl \<lparr>err_name = ''TokenExpiredError'', err_message = ''jwt expired''\<rparr>"
    if "(now div 1000 + 2592000) * 1000 \<le> t" for t
  proof -
    have "now div 1000 + 2592000 \<le> t div 1000"
      by (rule seconds_le [OF that])
    then show ?thesis
      using dec ne assms(3) k by (simp add: jwt_verify_def truthy_def j_def Let_def)
  qed
  have "jwt_id (payload j) = u" "exp (payload j) = Some (now div 1000 + 2592000)"
    by (simp_all add: j_def)
  moreover have "payload j = \<lparr>jwt_id = u, iat = now div 1000, nbf = None,
                 exp = Some (now div 1000 + 2592000)\<rparr>"
    by (simp add: j_def)
  ultimately show ?thesis using fresh early late by simp
qed

text \<open>
  Alice's token, issued 123 milliseconds into second 1700000000: valid at once, expired at
  second 1702592000.
\<close>

theorem token_valid_until_expiry_witness:
  "generateToken enc0 (Some ''s3cret'') 1700000000123 ''000000000000000000000001'' = Inr ''h.p.s''
   \<and> length (split CHR ''.'' ''h.p.s'') = 3
   \<and> jwt_verify dec0 1700000000123 (Some ''h.p.s'') (Some ''s3cret'') =
       Inr \<lparr>jwt_id = ''000000000000000000000001'', iat = 1700000000, nbf = None,
            exp = Some 1702592000\<rparr>
   \<and> jwt_verify dec0 1702592000000 (Some ''h.p.s'') (Some ''s3cret'') =
       Inl \<lparr>err_name = ''TokenExpiredError'', err_message = ''jwt expired''\<rparr>"
proof -
  have gen: "generateToken enc0 (Some ''s3cret'') 1700000000123 ''000000000000000000000001''
               = Inr ''h.p.s''"
    by (simp add: generateToken_def jwt_sign_def enc0_def token0_def)
  have codec: "dec0 ''h.p.s'' = Some j" if "''h.p.s'' = enc0 j" for j
    using that by (cases "j = token0") (simp_all add: enc0_def dec0_def)
  have parts: "length (split CHR ''.'' ''h.p.s'') = 3"
    by simp
  note T = token_valid_until_expiry [where dec = dec0, OF gen codec parts]
  have "jwt_verify dec0 1702592000000 (Some ''h.p.s'') (Some ''s3cret'') =
       Inl \<lparr>err_name = ''TokenExpiredError'', err_message = ''jwt expired''\<rparr>"
    using T by simp
  then show ?thesis
    using T gen parts by simp
qed

subsection \<open>The auth gate\<close>

lemma protect_catch_shape:
  "protect_catch e =
     \<lparr>res_status = 401, res_success = False,
      res_message = Some (if err_name e = ''JsonWebTokenError'' then ''Invalid token''
                          else if err_name e = ''TokenExpiredError'' then ''Token expired''
                          else ''Not authorized, token failed''),
      res_count = None, res_data = None, res_errors = None, res_error = None\<rparr>"
  by (simp add: protect_catch_def reply_def)

lemma protect_cases:
  "protect cast dec secret now d authorization =
     (case authorization of
        None \<Rightarrow> Inl ((reply 401 False)\<lparr>res_message := Some ''Not authorized, no token provided''\<rparr>)
      | Some h \<Rightarrow>
          if \<not> startsWith h ''Bearer'' then
            Inl ((reply 401 False)\<lparr>res_message := Some ''Not authorized, no token provided''\<rparr>)
          else
            (case jwt_verify dec now (at_index (split CHR '' '' h) 1) secret of
               Inl e \<Rightarrow> Inl (protect_catch e)
             | Inr p \<Rightarrow>
                 (case User_findById cast d (jwt_id p) of
                    Inl e \<Rightarrow> Inl (protect_catch e)
                  | Inr None \<Rightarrow> Inl ((reply 401 False)\<lparr>res_message := Some ''User not found''\<rparr>)
                  | Inr (Some u) \<Rightarrow> Inr u)))"
proof (cases authorization)
  case None
  then show ?thesis by (simp add: protect_def)
next
  case (Some h)
  have "startsWith h ''Bearer'' \<Longrightarrow> h \<noteq> []"
    by (auto simp add: startsWith_def)
  then show ?thesis using Some by (auto simp add: protect_def Let_def)
qed

lemma protect_no_header:
  "protect castObjectId dec0 (Some ''s3cret'') 1702592000000 db0 None =
     Inl \<lparr>res_status = 401, res_success = False,
          res_message = Some ''Not authorized, no token provided'', res_count = None,
          res_data = None, res_errors = None, res_error = None\<rparr>"
  by (simp add: protect_def reply_def)

lemma protect_expired:
  "protect castObjectId dec0 (Some ''s3cret'') 1702592000000 db0 (Some ''Bearer h.p.s'') =
     Inl \<lparr>res_status = 401, res_success = False, res_message = Some ''Token expired'',
          res_count = None, res_data = None, res_errors = None, res_error = None\<rparr>"
  by (simp add: protect_def startsWith_def at_index_def jwt_verify_def dec0_def token0_def
      truthy_def protect_catch_def reply_def)

text \<open>
  C2, as stated, fails: the responses to failing requests differ with the reason. A
  request without an \<^verbatim>\<open>Authorization\<close> header is told \<^verbatim>\<open>Not authorized, no token provided\<close>, a
  request with an expired token is told \<^verbatim>\<open>Token expired\<close>.
\<close>

theorem protect_reveals_reason:
  "protect castObjectId dec0 (Some ''s3cret'') 1702592000000 db0 None =
     Inl \<lparr>res_status = 401, res_success = False,
          res_message = Some ''Not authorized, no token provided'', res_count = None,
          res_data = None, res_errors = None, res_error = None\<rparr>
   \<and> protect castObjectId dec0 (Some ''s3cret'') 1702592000000 db0 (Some ''Bearer h.p.s'') =
     Inl \<lparr>res_status = 401, res_success = False, res_message = Some ''Token expired'',
          res_count = None, res_data = None, res_errors = None, res_error = None\<rparr>
   \<and> protect castObjectId dec0 (Some ''s3cret'') 1702592000000 db0 None
       \<noteq> protect castObjectId dec0 (Some ''s3cret'') 1702592000000 db0 (Some ''Bearer h.p.s'')"
  by (simp add: protect_no_header protect_expired)

text \<open>
  C2, amended. Every request that the gate rejects gets status 401 with \<^verbatim>\<open>success: false\<close>
  and a body that holds nothing but a message. The message is one of five fixed strings
  and names the class of the failure: \<^verbatim>\<open>Not authorized, no token provided\<close> when the header
  is absent or does not start with \<^verbatim>\<open>Bearer\<close>; \<^verbatim>\<open>User not found\<close> when the token verifies and
  no user has the decoded identifier; and when \<^verbatim>\<open>jwt.verify\<close> or \<^verbatim>\<open>User.findById\<close> throws, the
  name of the error decides: \<^verbatim>\<open>Invalid token\<close> for a \<^verbatim>\<open>JsonWebTokenError\<close> (no token after the
  prefix, malformed, wrong signature), \<^verbatim>\<open>Token expired\<close> for a \<^verbatim>\<open>TokenExpiredError\<close>, and
  \<^verbatim>\<open>Not authorized, token failed\<close> for any other error, in particular for the \<^verbatim>\<open>CastError\<close> of
  a decoded identifier that is no \<^verbatim>\<open>ObjectId\<close>. So two rejected requests of the same class
  get the same response.
\<close>

theorem protect_rejects_with_401:
  assumes "protect cast dec secret now d authorization = Inl r"
  shows "r = \<lparr>res_status = 401, res_success = False, res_message = res_message r,
              res_count = None, res_data = None, res_errors = None, res_error = None\<rparr>
       \<and> res_message r \<in> {Some ''Not authorized, no token provided'', Some ''Invalid token'',
                           Some ''Token expired'', Some ''User not found'',
                           Some ''Not authorized, token failed''}
       \<and> (authorization = None \<or> (\<exists>h. authorization = Some h \<and> \<not> startsWith h ''Bearer'')
            \<longrightarrow> res_message r = Some ''Not authorized, no token provided'')
       \<and> (\<forall>h e. authorization = Some h \<and> startsWith h ''Bearer''
                \<and> jwt_verify dec now (at_index (split CHR '' '' h) 1) secret = Inl e
            \<longrightarrow> res_message r =
                  Some (if err_name e = ''JsonWebTokenError'' then ''Invalid token''
                        else if err_name e = ''TokenExpiredError'' then ''Token expired''
                        else ''Not authorized, token failed''))
       \<and> (\<forall>h p. authorization = Some h \<and> startsWith h ''Bearer''
                \<and> jwt_verify dec now (at_index (split CHR '' '' h) 1) secret = Inr p
                \<and> User_findById cast d (jwt_id p) = Inr None
            \<longrightarrow> res_message r = Some ''User not found'')
       \<and> (\<forall>h p e. authorization = Some h \<and> startsWith h ''Bearer''
                \<and> jwt_verify dec now (at_index (split CHR '' '' h) 1) secret = Inr p
                \<and> User_findById cast d (jwt_id p) = Inl e
            \<longrightarrow> res_message r =
                  Some (if err_name e = ''JsonWebTokenError'' then ''Invalid token''
                        else if err_name e = ''TokenExpiredError'' then ''Token expired''
                        else ''Not authorized, token failed''))
       \<and> (\<forall>h p. authorization = Some h \<and> startsWith h ''Bearer''
                \<and> jwt_verify dec now (at_index (split CHR '' '' h) 1) secret = Inr p
                \<and> cast (jwt_id p) = None
            \<longrightarrow> res_message r = Some ''Not authorized, token failed'')"
proof -
  have castErr: "User_findById cast d ident = Inl (castError ident ''_id'' ''User'')"
    if "cast ident = None" for ident
    using that by (simp add: User_findById_def)
  have name: "err_name (castError ident path model) = ''CastError''" for ident path model
    by (simp add: castError_def)
  show ?thesis
    using assms castErr unfolding protect_cases
    by (auto simp add: protect_catch_shape name reply_def
        split: option.splits if_splits sum.splits)
qed

text \<open>The request with Alice's expired token.\<close>

theorem protect_rejects_with_401_witness:
  "protect castObjectId dec0 (Some ''s3cret'') 1702592000000 db0 (Some ''Bearer h.p.s'') =
     Inl \<lparr>res_status = 401, res_success = False, res_message = Some ''Token expired'',
          res_count = None, res_data = None, res_errors = None, res_error = None\<rparr>
   \<and> startsWith ''Bearer h.p.s'' ''Bearer''
   \<and> jwt_verify dec0 1702592000000 (at_index (split CHR '' '' ''Bearer h.p.s'') 1)
        (Some ''s3cret'') =
       Inl \<lparr>err_name = ''TokenExpiredError'', err_message = ''jwt expired''\<rparr>
   \<and> res_message \<lparr>res_status = 401, res_success = False, res_message = Some ''Token expired'',
          res_count = None, res_data = None, res_errors = None, res_error = None\<rparr>
       \<in> {Some ''Not authorized, no token provided'', Some ''Invalid token'',
           Some ''Token expired'', Some ''User not found'',
           Some ''Not authorized, token failed''}"
proof -
  have v: "jwt_verify dec0 1702592000000 (at_index (split CHR '' '' ''Bearer h.p.s'') 1)
        (Some ''s3cret'') =
       Inl \<lparr>err_name = ''TokenExpiredError'', err_message = ''jwt expired''\<rparr>"
    by (simp add: at_index_def jwt_verify_def dec0_def token0_def truthy_def)
  have s: "startsWith ''Bearer h.p.s'' ''Bearer''"
    by (simp add: startsWith_def)
  note T = protect_rejects_with_401 [OF protect_expired]
  from T have "res_message \<lparr>res_status = 401, res_success = False,
          res_message = Some ''Token expired'',
          res_count = None, res_data = None, res_errors = None, res_error = None\<rparr>
       \<in> {Some ''Not authorized, no token provided'', Some ''Invalid token'',
           Some ''Token expired'', Some ''User not found'',
           Some ''Not authorized, token failed''}"
    by blast
  then show ?thesis
    using protect_expired v s by blast
qed

subsection \<open>Failures of the persistence layer\<close>

text \<open>
  C3. When the persistence layer fails, the task routes answer 500 with a fixed message,
  but the body also carries the message of the underlying error in its \<^verbatim>\<open>error\<close> field: with
  the database unreachable, \<^verbatim>\<open>GET /tasks\<close> and \<^verbatim>\<open>POST /tasks\<close> send the driver's
  \<^verbatim>\<open>connect ECONNREFUSED 10.0.3.7:27017\<close> to the client, and \<^verbatim>\<open>GET /tasks/abc\<close> sends the
  message of Mongoose's \<^verbatim>\<open>CastError\<close>, which names the model and the path of the query.
\<close>

theorem storage_error_message_in_body:
  "get_tasks db_down alice \<lparr>query_status = None, query_priority = None, query_sort = None\<rparr> =
     \<lparr>res_status = 500, res_success = False, res_message = Some ''Error fetching tasks'',
      res_count = None, res_data = None, res_errors = None,
      res_error = Some ''connect ECONNREFUSED 10.0.3.7:27017''\<rparr>
   \<and> fst (post_task parse0 db_down alice 12 5000 spaced_body) =
     \<lparr>res_status = 500, res_success = False, res_message = Some ''Error creating task'',
      res_count = None, res_data = None, res_errors = None,
      res_error = Some ''connect ECONNREFUSED 10.0.3.7:27017''\<rparr>
   \<and> get_task castObjectId db0 alice ''abc'' =
     \<lparr>res_status = 500, res_success = False, res_message = Some ''Error fetching task'',
      res_count = None, res_data = None, res_errors = None,
      res_error = Some (''Cast to ObjectId failed for value '' @ quoted ''abc''
                        @ '' (type string) at path '' @ quoted ''_id''
                        @ '' for model '' @ quoted ''Task'')\<rparr>"
proof -
  have "get_tasks db_down alice \<lparr>query_status = None, query_priority = None, query_sort = None\<rparr> =
     \<lparr>res_status = 500, res_success = False, res_message = Some ''Error fetching tasks'',
      res_count = None, res_data = None, res_errors = None,
      res_error = Some ''connect ECONNREFUSED 10.0.3.7:27017''\<rparr>"
    by (simp add: get_tasks_def Task_find_def db_down_def db0_def reply_def truthy_def)
  moreover have "fst (post_task parse0 db_down alice 12 5000 spaced_body) =
     \<lparr>res_status = 500, res_success = False, res_message = Some ''Error creating task'',
      res_count = None, res_data = None, res_errors = None,
      res_error = Some ''connect ECONNREFUSED 10.0.3.7:27017''\<rparr>"
    by (simp add: post_task_def validators_def chain_def Let_def trim_def isWhitespace_def
      isLength_def isIn_def Task_create_def validate_def statuses_def priorities_def
      or_default_def db_down_def db0_def reply_def spaced_body_def)
  moreover have "get_task castObjectId db0 alice ''abc'' =
     \<lparr>res_status = 500, res_success = False, res_message = Some ''Error fetching task'',
      res_count = None, res_data = None, res_errors = None,
      res_error = Some (''Cast to ObjectId failed for value '' @ quoted ''abc''
                        @ '' (type string) at path '' @ quoted ''_id''
                        @ '' for model '' @ quoted ''Task'')\<rparr>"
    by (simp add: get_task_def Task_findOne_def castObjectId_def castError_def reply_def)
  ultimately show ?thesis by simp
qed

subsection \<open>The owner of a created task\<close>

lemma protect_next:
  assumes "protect cast dec secret now d authorization = Inr u"
  shows "\<exists>h p. authorization = Some h \<and> startsWith h ''Bearer''
             \<and> jwt_verify dec now (at_index (split CHR '' '' h) 1) secret = Inr p
             \<and> User_findById cast d (jwt_id p) = Inr (Some u)"
  using assms unfolding protect_cases
  by (auto split: option.splits if_splits sum.splits)

lemma User_findById_Some:
  assumes "User_findById cast d ident = Inr (Some u)"
  shows "cast ident = Some (user_id u) \<and> u \<in> set (users d)"
  using assms
  by (auto simp add: User_findById_def find_Some_iff split: option.splits)

lemma Task_create_result:
  assumes "Task_create parse d new_id now ttl descr st pr due uid = Inr (t, d')"
  shows "tasks d' = tasks d @ [t] \<and> user t = uid \<and> task_id t = new_id
         \<and> new_id \<notin> set (map task_id (tasks d))"
  using assms
  by (auto simp add: Task_create_def Let_def
      split: list.splits option.splits if_splits prod.splits)

lemma validators_ignore_user:
  "fst (validators opt (b\<lparr>body_user := x\<rparr>)) = fst (validators opt b)"
  "body_title (snd (validators opt (b\<lparr>body_user := x\<rparr>))) = body_title (snd (validators opt b))"
  "body_description (snd (validators opt (b\<lparr>body_user := x\<rparr>))) =
     body_description (snd (validators opt b))"
  "body_status (snd (validators opt (b\<lparr>body_user := x\<rparr>))) = body_status (snd (validators opt b))"
  "body_priority (snd (validators opt (b\<lparr>body_user := x\<rparr>))) =
     body_priority (snd (validators opt b))"
  "body_dueDate (snd (validators opt (b\<lparr>body_user := x\<rparr>))) =
     body_dueDate (snd (validators opt b))"
  by (simp_all add: validators_fst sanitized_body)

lemma post_task_ignores_user:
  "post_task parse d u new_id now (b\<lparr>body_user := x\<rparr>) = post_task parse d u new_id now b"
  by (simp add: post_task_def split_beta validators_ignore_user)

lemma post_task_result:
  assumes "post_task parse d u new_id now b = (r, d')"
  shows "tasks d' = tasks d
       \<or> (\<exists>t. tasks d' = tasks d @ [t] \<and> user t = user_id u \<and> task_id t = new_id
              \<and> r = \<lparr>res_status = 201, res_success = True,
                      res_message = Some ''Task created successfully'', res_count = None,
                      res_data = Some (OneTask t), res_errors = None, res_error = None\<rparr>)"
proof (cases "fst (validators False b) = []")
  case False
  then show ?thesis using assms by (simp add: post_task_def split_beta)
next
  case True
  show ?thesis
  proof (cases "Task_create parse d new_id now (body_title (snd (validators False b)))
                  (body_description (snd (validators False b)))
                  (or_default (body_status (snd (validators False b))) ''pending'')
                  (or_default (body_priority (snd (validators False b))) ''medium'')
                  (body_dueDate (snd (validators False b))) (user_id u)")
    case (Inl e)
    then show ?thesis using assms True by (simp add: post_task_def split_beta)
  next
    case (Inr res)
    obtain t d2 where res: "res = (t, d2)" by (cases res)
    have "d' = d2" and "r = (reply 201 True)\<lparr>res_message := Some ''Task created successfully'',
                                   res_data := Some (OneTask t)\<rparr>"
      using assms True Inr res by (simp_all add: post_task_def split_beta)
    then show ?thesis
      using Task_create_result [OF Inr [unfolded res]] by (simp add: reply_def)
  qed
qed

lemma protect_alice:
  "protect castObjectId dec0 (Some ''s3cret'') 1700000000123 db0 (Some ''Bearer h.p.s'') = Inr alice"
  by (simp add: protect_def startsWith_def at_index_def jwt_verify_def dec0_def token0_def
      truthy_def User_findById_def castObjectId_def hexDigit_def db0_def alice_def bob_def)

text \<open>
  C10. Whatever \<^verbatim>\<open>POST /api/tasks\<close> answers, the collection is either unchanged or has
  gained exactly one task at its end; in the latter case the request carried a bearer token
  that \<^verbatim>\<open>jwt.verify\<close> accepted, the identifier in its payload is that of a stored user, and the
  owner of the new task is that user. A \<^verbatim>\<open>user\<close> field in the body has no influence: with any
  value of it, the response and the resulting database are the same.
\<close>

theorem created_task_owned_by_caller:
  assumes "POST_tasks cast dec parse secret now new_id d authorization b = (r, d')"
  shows "(tasks d' = tasks d
          \<or> (\<exists>h p u t.
                authorization = Some h
              \<and> jwt_verify dec now (at_index (split CHR '' '' h) 1) secret = Inr p
              \<and> cast (jwt_id p) = Some (user_id u) \<and> u \<in> set (users d)
              \<and> tasks d' = tasks d @ [t] \<and> user t = user_id u
              \<and> r = \<lparr>res_status = 201, res_success = True,
                      res_message = Some ''Task created successfully'', res_count = None,
                      res_data = Some (OneTask t), res_errors = None, res_error = None\<rparr>))
       \<and> (\<forall>x. POST_tasks cast dec parse secret now new_id d authorization (b\<lparr>body_user := x\<rparr>)
                = (r, d'))"
proof
  show "\<forall>x. POST_tasks cast dec parse secret now new_id d authorization (b\<lparr>body_user := x\<rparr>)
                = (r, d')"
    using assms
    by (cases "protect cast dec secret now d authorization")
       (simp_all add: POST_tasks_def post_task_ignores_user)
next
  show "tasks d' = tasks d
          \<or> (\<exists>h p u t.
                authorization = Some h
              \<and> jwt_verify dec now (at_index (split CHR '' '' h) 1) secret = Inr p
              \<and> cast (jwt_id p) = Some (user_id u) \<and> u \<in> set (users d)
              \<and> tasks d' = tasks d @ [t] \<and> user t = user_id u
              \<and> r = \<lparr>res_status = 201, res_success = True,
                      res_message = Some ''Task created successfully'', res_count = None,
                      res_data = Some (OneTask t), res_errors = None, res_error = None\<rparr>)"
  proof (cases "protect cast dec secret now d authorization")
    case (Inl resp)
    then show ?thesis using assms by (simp add: POST_tasks_def)
  next
    case (Inr u)
    then have post: "post_task parse d u new_id now b = (r, d')"
      using assms by (simp add: POST_tasks_def)
    obtain h p where hp: "authorization = Some h"
        "jwt_verify dec now (at_index (split CHR '' '' h) 1) secret = Inr p"
        "User_findById cast d (jwt_id p) = Inr (Some u)"
      using protect_next [OF Inr] by blast
    have u: "cast (jwt_id p) = Some (user_id u)" "u \<in> set (users d)"
      using User_findById_Some [OF hp(3)] by simp_all
    show ?thesis
      using post_task_result [OF post] hp(1,2) u by blast
  qed
qed

text \<open>
  Alice creates a task with her token while the body names Bob as \<^verbatim>\<open>user\<close>: the task is
  hers.
\<close>

theorem created_task_owned_by_caller_witness:
  "POST_tasks castObjectId dec0 parse0 (Some ''s3cret'') 1700000000123 12 db0 (Some ''Bearer h.p.s'')
     (spaced_body\<lparr>body_user := Some ''000000000000000000000002''\<rparr>) =
   (\<lparr>res_status = 201, res_success = True, res_message = Some ''Task created successfully'',
     res_count = None,
     res_data = Some (OneTask \<lparr>task_id = 12, title = ''Buy milk'', description = None,
                              status = ''pending'', priority = ''medium'', dueDate = None,
                              user = 1, createdAt = 1700000000123,
                              updatedAt = 1700000000123\<rparr>),
     res_errors = None, res_error = None\<rparr>,
    \<lparr>users = [alice, bob],
     tasks = [milk, report, \<lparr>task_id = 12, title = ''Buy milk'', description = None,
                              status = ''pending'', priority = ''medium'', dueDate = None,
                              user = 1, createdAt = 1700000000123,
                              updatedAt = 1700000000123\<rparr>],
     failure = None\<rparr>)"
proof -
  have post: "POST_tasks castObjectId dec0 parse0 (Some ''s3cret'') 1700000000123 12 db0
     (Some ''Bearer h.p.s'') spaced_body =
   (\<lparr>res_status = 201, res_success = True, res_message = Some ''Task created successfully'',
     res_count = None,
     res_data = Some (OneTask \<lparr>task_id = 12, title = ''Buy milk'', description = None,
                              status = ''pending'', priority = ''medium'', dueDate = None,
                              user = 1, createdAt = 1700000000123,
                              updatedAt = 1700000000123\<rparr>),
     res_errors = None, res_error = None\<rparr>,
    \<lparr>users = [alice, bob],
     tasks = [milk, report, \<lparr>task_id = 12, title = ''Buy milk'', description = None,
                              status = ''pending'', priority = ''medium'', dueDate = None,
                              user = 1, createdAt = 1700000000123,
                              updatedAt = 1700000000123\<rparr>],
     failure = None\<rparr>)"
    unfolding POST_tasks_def protect_alice sum.case
    by (simp add: post_task_def validators_def chain_def Let_def trim_def isWhitespace_def
      isLength_def isIn_def Task_create_def validate_def statuses_def priorities_def
      or_default_def db0_def alice_def milk_def report_def reply_def spaced_body_def)
  note T = created_task_owned_by_caller [OF post]
  then show ?thesis by blast
qed

subsection \<open>A due date that is no date\<close>

text \<open>
  A number beyond the range of \<^verbatim>\<open>Date\<close> passes the chains of the routes, which do not look at
  \<^verbatim>\<open>dueDate\<close>; the cast of the schema fails, the document is rejected, and both \<^verbatim>\<open>POST /tasks\<close>
  and \<^verbatim>\<open>PUT /tasks/:id\<close> answer 500 and store nothing.
\<close>

lemma decimal_late: "decimal 8640000000000001 = ''8640000000000001''"
  by (simp add: decimal_def digits.simps [of "numeral n" for n])

lemma post_task_invalid_date:
  "post_task parse0 db0 alice 12 5000 late_body =
     (\<lparr>res_status = 500, res_success = False, res_message = Some ''Error creating task'',
       res_count = None, res_data = None, res_errors = None,
       res_error = Some (''Task validation failed: dueDate: Cast to date failed for value ''
                         @ quoted ''8640000000000001'' @ '' (type number) at path ''
                         @ quoted ''dueDate'')\<rparr>, db0)"
  by (simp add: post_task_def validators_def chain_def Let_def trim_def isWhitespace_def
      isLength_def isIn_def Task_create_def validate_def statuses_def priorities_def
      or_default_def reply_def late_body_def castDate_def castDateError_def decimal_late
      validationError_def)

lemma put_task_invalid_date:
  "put_task castObjectId parse0 db0 alice 7000 ''00000000000000000000000a''
     \<lparr>body_title = None, body_description = None, body_status = None, body_priority = None,
      body_dueDate = Some (DateNumber 8640000000000001), body_user = None\<rparr> =
     (\<lparr>res_status = 500, res_success = False, res_message = Some ''Error updating task'',
       res_count = None, res_data = None, res_errors = None,
       res_error = Some (''Task validation failed: dueDate: Cast to date failed for value ''
                         @ quoted ''8640000000000001'' @ '' (type number) at path ''
                         @ quoted ''dueDate'')\<rparr>, db0)"
  by (simp add: put_task_def validators_def chain_def Let_def Task_findOne_def cast_0a
      db0_def milk_def report_def alice_def assign_def task_save_def validate_def
      statuses_def priorities_def reply_def castDate_def castDateError_def decimal_late
      validationError_def)

subsection \<open>The state of the collection is kept\<close>

text \<open>
  The three routes that write keep the collection well formed, so the assumptions of the
  results on update and delete (pairwise different identifiers, a stored task that passes
  the schema) hold in every state reached from the empty collection.
\<close>

lemma validate_updatedAt: "validate (t\<lparr>updatedAt := n\<rparr>) = validate t"
  by (simp add: validate_def)

lemma Task_create_valid:
  assumes "Task_create parse d new_id now ttl descr st pr due uid = Inr (t, d')"
  shows "validate t = []"
proof -
  obtain castErrors dueD where
    c: "(case due of None \<Rightarrow> ([], None) | Some v \<Rightarrow> castDate parse v) = (castErrors, dueD)"
    by (cases "case due of None \<Rightarrow> ([], None) | Some v \<Rightarrow> castDate parse v")
  define doc where
    "doc = \<lparr>task_id = new_id, title = trim (case ttl of None \<Rightarrow> [] | Some s \<Rightarrow> s),
            description = map_option trim descr, status = st, priority = pr, dueDate = dueD,
            user = uid, createdAt = now, updatedAt = now\<rparr>"
  have "castErrors @ validate doc = [] \<and> t = doc\<lparr>updatedAt := now\<rparr>"
    using assms unfolding Task_create_def Let_def c prod.case doc_def [symmetric]
    by (auto split: list.splits option.splits if_splits)
  then show ?thesis by (simp add: validate_updatedAt)
qed

lemma wf_tasks_post_task:
  assumes "wf_tasks (tasks d)"
  shows "wf_tasks (tasks (snd (post_task parse d u new_id now b)))"
proof (cases "fst (validators False b) = []")
  case False
  then show ?thesis using assms by (simp add: post_task_def split_beta)
next
  case True
  show ?thesis
  proof (cases "Task_create parse d new_id now (body_title (snd (validators False b)))
                  (body_description (snd (validators False b)))
                  (or_default (body_status (snd (validators False b))) ''pending'')
                  (or_default (body_priority (snd (validators False b))) ''medium'')
                  (body_dueDate (snd (validators False b))) (user_id u)")
    case (Inl e)
    then show ?thesis using assms True by (simp add: post_task_def split_beta)
  next
    case (Inr res)
    obtain t d2 where res: "res = (t, d2)" by (cases res)
    have d2: "snd (post_task parse d u new_id now b) = d2"
      using True Inr res by (simp add: post_task_def split_beta)
    have "tasks d2 = tasks d @ [t]" "task_id t = new_id"
      "new_id \<notin> set (map task_id (tasks d))"
      using Task_create_result [OF Inr [unfolded res]] by simp_all
    moreover have "validate t = []"
      by (rule Task_create_valid [OF Inr [unfolded res]])
    ultimately show ?thesis
      using assms unfolding d2 by (simp add: wf_tasks_def)
  qed
qed

lemma wf_tasks_replace:
  assumes "wf_tasks ts" and "validate t' = []"
  shows "wf_tasks (map (\<lambda>x. if task_id x = task_id t' then t' else x) ts)"
proof -
  have ids: "map task_id (map (\<lambda>x. if task_id x = task_id t' then t' else x) ts) = map task_id ts"
    by (induction ts) simp_all
  have "distinct (map task_id (map (\<lambda>x. if task_id x = task_id t' then t' else x) ts))"
    unfolding ids using assms(1) by (simp add: wf_tasks_def)
  moreover have "list_all (\<lambda>t. validate t = [])
                   (map (\<lambda>x. if task_id x = task_id t' then t' else x) ts)"
    using assms by (auto simp add: wf_tasks_def list_all_iff)
  ultimately show ?thesis
    unfolding wf_tasks_def by (rule conjI)
qed

lemma wf_tasks_put_task:
  assumes "wf_tasks (tasks d)"
  shows "wf_tasks (tasks (snd (put_task cast parse d u now ident b)))"
proof -
  have save: "wf_tasks (tasks d')" if "task_save d now m = Inr (t', d')" for m t' d'
  proof -
    obtain doc es where m: "m = (doc, es)" by (cases m)
    have "validate doc = []" and "t' = doc\<lparr>updatedAt := now\<rparr>"
      and "tasks d' = map (\<lambda>x. if task_id x = task_id t' then t' else x) (tasks d)"
      using that unfolding m
      by (auto simp add: task_save_def Let_def split: list.splits option.splits)
    then show ?thesis
      using wf_tasks_replace [OF assms, of t'] by (simp add: validate_updatedAt)
  qed
  show ?thesis
    using assms save
    by (auto simp add: put_task_def split_beta split: sum.splits option.splits)
qed

lemma wf_tasks_delete_task:
  assumes "wf_tasks (tasks d)"
  shows "wf_tasks (tasks (snd (delete_task cast d u ident)))"
proof -
  have "wf_tasks (remove1 t (tasks d))" for t
    using assms
    by (auto simp add: wf_tasks_def distinct_map list_all_iff
        intro: inj_on_subset dest: notin_set_remove1)
  then show ?thesis
    using assms
    by (auto simp add: delete_task_def Task_findOneAndDelete_def
        split: sum.splits option.splits prod.splits)
qed

lemma wf_tasks_empty: "wf_tasks []"
  by (simp add: wf_tasks_def)

end
